theory Spec2Isabelle
  imports Complex_Main "HOL-Library.Multiset" "HOL-Library.AList"
begin

section \<open>Shared data model\<close>

text \<open>
  Python floats are real numbers, instants (\<open>datetime\<close>, pandas \<open>Timestamp\<close>) reals
  counting seconds since the epoch. Infinities and NaN, which the detectors can produce
  by dividing by zero, are modelled explicitly where they can arise. The arithmetic of
  the price-movement detector rounds every result to double precision; elsewhere the
  operations are exact. Signed zeros are outside the model.
\<close>

type_synonym instant = real

text \<open>Exceptions that are subclasses of Python's \<open>Exception\<close>, with their message.\<close>

datatype error = KeyError string | ValueError string | IndexError string | OtherError string

text \<open>
  What a Python call can raise: an exception of the \<open>Exception\<close> hierarchy, which an
  \<open>except Exception\<close> clause catches, or an exception outside it (\<open>BaseException\<close> only:
  \<open>asyncio.CancelledError\<close> since Python 3.8, \<open>KeyboardInterrupt\<close>, \<open>SystemExit\<close>), which
  such a clause lets pass. The outcome of a call or of awaiting a coroutine is a returned
  value or a raised exception.
\<close>

datatype raised = Exception error | BaseException string

datatype 'a outcome = Returns 'a | Raises raised

text \<open>\<open>src/models/data_models.py\<close>: the enumerations.\<close>

datatype DataSourceType = GEMFIRE | EOD | MSSQL | HBASE

datatype DataType = PRICE | VOLUME | TRADE | QUOTE | ORDER_BOOK | INDEX | REFERENCE

datatype AnomalyType = MISSING_DATA | PRICE_MOVEMENT | DATA_STALE | VOLUME_SPIKE | DATA_QUALITY


text \<open>
  A payload value, as far as the adapters look at it: \<open>PyNum x\<close> is a value on which
  \<open>float()\<close> succeeds with \<open>x\<close>; \<open>PyIso t\<close> is the ISO-format string of the instant
  \<open>t\<close>; \<open>PyText\<close> is any other string and \<open>PyNone\<close> is \<open>None\<close>. On the last three
  \<open>float()\<close> raises \<open>ValueError\<close> or \<open>TypeError\<close>.
\<close>

datatype pyval = PyNum real | PyIso instant | PyText string | PyNone

type_synonym raw_data = "(string \<times> pyval) list"

text \<open>\<open>MarketDataPoint\<close> of \<open>src/models/data_models.py\<close>.\<close>

record MarketDataPoint =
  symbol :: string
  timestamp :: instant
  source :: DataSourceType
  data_type :: DataType
  payload :: raw_data
  price :: "real option"
  volume :: "real option"
  received_at :: instant
  processed_at :: "instant option"

text \<open>Python's \<open>xs[:n]\<close>: a negative \<open>n\<close> counts from the end.\<close>

definition py_slice_to :: "int \<Rightarrow> 'a list \<Rightarrow> 'a list" where
  "py_slice_to n xs = (if 0 \<le> n then take (nat n) xs else take (length xs - nat (- n)) xs)"

section \<open>Adapters: \<open>src/adapters/base.py\<close>\<close>

text \<open>
  The fields of \<open>BaseDataAdapter\<close> that its own methods read or write. The abstract
  methods (\<open>test_connection\<close>, \<open>get_latest_data\<close>) are dispatched dynamically in
  Python; the functions below take the outcome of the dispatched call as a parameter.
\<close>

record adapter =
  name :: string
  adapter_type :: DataSourceType
  expected_symbols :: "string list"
  connected :: bool
  last_heartbeat :: "instant option"

definition is_connected :: "adapter \<Rightarrow> bool" where
  "is_connected a = connected a"

definition get_last_heartbeat :: "adapter \<Rightarrow> instant option" where
  "get_last_heartbeat a = last_heartbeat a"

text \<open>
  \<open>heartbeat\<close>: \<open>test_connection\<close> is the outcome of \<open>await self.test_connection()\<close>,
  \<open>utcnow\<close> the value of \<open>datetime.utcnow()\<close>. The result is the adapter after the
  call, paired with the outcome of \<open>heartbeat\<close> itself. The handler is
  \<open>except Exception\<close>: an exception outside that hierarchy leaves \<open>heartbeat\<close> as it
  came.
\<close>

definition heartbeat :: "bool outcome \<Rightarrow> instant \<Rightarrow> adapter \<Rightarrow> adapter \<times> bool outcome" where
  "heartbeat test_connection utcnow self =
     (case test_connection of
        Returns result \<Rightarrow> (self\<lparr>last_heartbeat := Some utcnow\<rparr>, Returns result)
      | Raises (Exception e) \<Rightarrow> (self, Returns False)
      | Raises (BaseException b) \<Rightarrow> (self, Raises (BaseException b)))"

text \<open>
  \<open>_parse_data_point\<close>: the first field of the list that is present and converts with
  \<open>float()\<close> gives the value; a \<open>ValueError\<close> or \<open>TypeError\<close> moves on to the next field.
\<close>

fun py_float :: "pyval \<Rightarrow> real option" where
  "py_float (PyNum x) = Some x"
| "py_float (PyIso t) = None"
| "py_float (PyText s) = None"
| "py_float PyNone = None"

fun first_float :: "raw_data \<Rightarrow> string list \<Rightarrow> real option" where
  "first_float raw [] = None"
| "first_float raw (fld # flds) =
     (case map_of raw fld of
        None \<Rightarrow> first_float raw flds
      | Some v \<Rightarrow> (case py_float v of Some x \<Rightarrow> Some x | None \<Rightarrow> first_float raw flds))"

definition has_any :: "raw_data \<Rightarrow> string list \<Rightarrow> bool" where
  "has_any raw flds = list_ex (\<lambda>fld. map_of raw fld \<noteq> None) flds"

definition determine_data_type :: "raw_data \<Rightarrow> DataType" where
  "determine_data_type raw =
     (if has_any raw [''bid'', ''ask'', ''bid_size'', ''ask_size''] then QUOTE
      else if has_any raw [''trade_price'', ''trade_size'', ''trade_time''] then TRADE
      else if map_of raw ''volume'' \<noteq> None then VOLUME
      else if has_any raw [''price'', ''last_price'', ''close''] then PRICE
      else REFERENCE)"

definition parse_data_point :: "adapter \<Rightarrow> instant \<Rightarrow> raw_data \<Rightarrow> string \<Rightarrow> instant \<Rightarrow> MarketDataPoint" where
  "parse_data_point self utcnow raw smb ts =
     \<lparr>symbol = smb, timestamp = ts, source = adapter_type self,
      data_type = determine_data_type raw, payload = raw,
      price = first_float raw [''price'', ''last_price'', ''close'', ''value''],
      volume = first_float raw [''volume'', ''size'', ''quantity''],
      received_at = utcnow, processed_at = None\<rparr>"

section \<open>The data source manager: \<open>src/adapters/manager.py\<close>\<close>

text \<open>
  \<open>self.adapters\<close> is a Python dict from names to adapters: an association list with
  distinct keys in insertion order.
\<close>

record manager =
  adapters :: "(string \<times> adapter) list"

definition is_healthy :: "manager \<Rightarrow> bool" where
  "is_healthy self =
     (if adapters self = [] then False
      else list_all is_connected (map snd (adapters self)))"

section \<open>The Gemfire adapter: \<open>src/adapters/gemfire_adapter.py\<close>\<close>

text \<open>
  \<open>_get_from_cache\<close> ignores its key and returns five sample records, one per minute
  back from \<open>datetime.utcnow()\<close>.
\<close>

definition sample_record :: "instant \<Rightarrow> nat \<Rightarrow> raw_data" where
  "sample_record utcnow i =
     [(''timestamp'', PyIso (utcnow - 60 * real i)),
      (''price'', PyNum (100 + real i * (1 / 10))),
      (''volume'', PyNum (1000 + real i * 10)),
      (''bid'', PyNum (999 / 10 + real i * (1 / 10))),
      (''ask'', PyNum (1001 / 10 + real i * (1 / 10))),
      (''source'', PyText ''gemfire_cache'')]"

definition get_from_cache :: "instant \<Rightarrow> string \<Rightarrow> raw_data list" where
  "get_from_cache utcnow cache_key = map (sample_record utcnow) [0..<5]"

text \<open>\<open>datetime.fromisoformat\<close> on a payload value.\<close>

fun fromisoformat :: "pyval \<Rightarrow> error + instant" where
  "fromisoformat (PyIso t) = Inr t"
| "fromisoformat (PyText s) = Inl (ValueError s)"
| "fromisoformat (PyNum x) = Inl (OtherError ''TypeError'')"
| "fromisoformat PyNone = Inl (OtherError ''TypeError'')"

text \<open>The inner loop of \<open>get_latest_data\<close>, over \<open>cached_data[:limit]\<close> of one symbol.\<close>

fun gemfire_points :: "adapter \<Rightarrow> instant \<Rightarrow> string \<Rightarrow> raw_data list \<Rightarrow> error + MarketDataPoint list" where
  "gemfire_points self utcnow smb [] = Inr []"
| "gemfire_points self utcnow smb (data # rest) =
     (case fromisoformat (case map_of data ''timestamp'' of Some v \<Rightarrow> v | None \<Rightarrow> PyIso utcnow) of
        Inl e \<Rightarrow> Inl e
      | Inr ts \<Rightarrow>
          (case gemfire_points self utcnow smb rest of
             Inl e \<Rightarrow> Inl e
           | Inr ps \<Rightarrow> Inr (parse_data_point self utcnow data smb ts # ps)))"

text \<open>The outer loop, over the requested symbols; the limit is applied to each symbol's list.\<close>

fun gemfire_symbols :: "adapter \<Rightarrow> instant \<Rightarrow> int \<Rightarrow> string list \<Rightarrow> error + MarketDataPoint list" where
  "gemfire_symbols self utcnow limit [] = Inr []"
| "gemfire_symbols self utcnow limit (smb # rest) =
     (let cached_data = get_from_cache utcnow (''market_data:'' @ smb) in
      case (if cached_data \<noteq> [] then gemfire_points self utcnow smb (py_slice_to limit cached_data)
            else Inr []) of
        Inl e \<Rightarrow> Inl e
      | Inr ps \<Rightarrow>
          (case gemfire_symbols self utcnow limit rest of
             Inl e \<Rightarrow> Inl e
           | Inr qs \<Rightarrow> Inr (ps @ qs)))"

text \<open>
  \<open>GemfireAdapter.get_latest_data\<close>: the body of the \<open>try\<close>, then the handler that
  turns every exception into the empty list.
\<close>

definition gemfire_try_latest :: "adapter \<Rightarrow> instant \<Rightarrow> string list \<Rightarrow> int \<Rightarrow> error + MarketDataPoint list" where
  "gemfire_try_latest self utcnow symbols limit =
     (if \<not> connected self then Inl (OtherError ''Not connected to Gemfire'')
      else gemfire_symbols self utcnow limit symbols)"

definition gemfire_get_latest_data :: "adapter \<Rightarrow> instant \<Rightarrow> string list \<Rightarrow> int \<Rightarrow> MarketDataPoint list" where
  "gemfire_get_latest_data self utcnow symbols limit =
     (case gemfire_try_latest self utcnow symbols limit of Inl e \<Rightarrow> [] | Inr ps \<Rightarrow> ps)"

text \<open>
  \<open>GemfireAdapter.get_historical_data\<close> filters the result of \<open>get_latest_data\<close> by time
  and slices the filtered list to \<open>limit\<close> once more. (Its \<open>try\<close> has no failing step
  here, since \<open>get_latest_data\<close> never raises.)
\<close>

definition gemfire_get_historical_data :: "adapter \<Rightarrow> instant \<Rightarrow> string list \<Rightarrow> instant \<Rightarrow> instant \<Rightarrow> int \<Rightarrow> MarketDataPoint list" where
  "gemfire_get_historical_data self utcnow symbols start_time end_time limit =
     (let recent_data = gemfire_get_latest_data self utcnow symbols limit;
          filtered_data = filter (\<lambda>dp. start_time \<le> timestamp dp \<and> timestamp dp \<le> end_time) recent_data
      in py_slice_to limit filtered_data)"

section \<open>Fan-out of the manager\<close>




text \<open>
  The second loop awaits the tasks in order, each inside \<open>try ... except Exception\<close>: an
  \<open>Exception\<close> is logged and the task skipped, anything else leaves the loop.
\<close>

fun await_all :: "'d list \<Rightarrow> (string \<times> 'd list outcome) list \<Rightarrow> raised + 'd list" where
  "await_all all_data [] = Inr all_data"
| "await_all all_data ((nm, task) # rest) =
     (case task of
        Returns data \<Rightarrow> await_all (all_data @ data) rest
      | Raises (Exception e) \<Rightarrow> await_all all_data rest
      | Raises (BaseException b) \<Rightarrow> Inl (BaseException b))"












section \<open>Detector inputs and outputs\<close>

text \<open>
  The detectors take a list of dicts. A data point has the keys \<open>symbol\<close>, \<open>timestamp\<close>
  and \<open>price\<close> (a number), and may have the key \<open>volume\<close>; \<open>dp_volume = None\<close> is a dict
  without that key, which pandas turns into NaN when other rows have it.
\<close>

record data_point =
  dp_symbol :: string
  dp_timestamp :: instant
  dp_price :: real
  dp_volume :: "real option"

text \<open>
  The keys every emitted anomaly dict has. \<open>detected_at\<close> (the wall clock at emission)
  and the formatted \<open>description\<close> string are left out.
\<close>

record anomaly =
  a_symbol :: string
  anomaly_type :: string
  severity :: string

section \<open>The ML model: \<open>python-services/ml-models/src/anomaly_ml_model.py\<close>\<close>

type_synonym features = "real list list"

text \<open>
  What \<open>joblib.load\<close> returns: the dict written by \<open>save_model\<close>, where a field is
  \<open>None\<close> when the key is missing from the loaded dict.
\<close>

record ('m, 's) model_data =
  md_model :: "'m option"
  md_scaler :: "'s option"
  md_is_trained :: "bool option"
  md_feature_columns :: "string list option"
  md_contamination :: "real option"

text \<open>
  pandas, scikit-learn and joblib are not part of the repository; their operations are
  parameters. \<open>'m\<close> is the state of the \<open>IsolationForest\<close>, \<open>'s\<close> the state of the
  \<open>StandardScaler\<close>. \<open>fit_transform\<close> and \<open>fit\<close> mutate their object in place, so they
  return the object after the call together with the outcome. \<open>featurize\<close> is the pandas
  pipeline of \<open>prepare_features\<close> on a non-empty input (sorting, per-symbol differences,
  rolling deviations, \<open>fillna(0)\<close>, column selection).
\<close>

record ('m, 's) toolkit =
  featurize :: "string list \<Rightarrow> data_point list \<Rightarrow> error + features"
  fit_transform :: "'s \<Rightarrow> features \<Rightarrow> 's \<times> (error + features)"
  fit :: "'m \<Rightarrow> features \<Rightarrow> 'm \<times> (error + unit)"
  transform :: "'s \<Rightarrow> features \<Rightarrow> error + features"
  predict :: "'m \<Rightarrow> features \<Rightarrow> error + int list"
  decision_function :: "'m \<Rightarrow> features \<Rightarrow> error + real list"
  joblib_load :: "string \<Rightarrow> error + ('m, 's) model_data"

record ('m, 's) AnomalyMLModel =
  contamination :: real
  model :: 'm
  scaler :: 's
  is_trained :: bool
  feature_columns :: "string list"

definition prepare_features :: "('m, 's) toolkit \<Rightarrow> ('m, 's) AnomalyMLModel \<Rightarrow> data_point list \<Rightarrow> error + features" where
  "prepare_features tk self data_points =
     (if data_points = [] then Inr [] else featurize tk (feature_columns self) data_points)"

text \<open>\<open>train\<close>: the model after the call and the returned boolean.\<close>

definition train :: "('m, 's) toolkit \<Rightarrow> ('m, 's) AnomalyMLModel \<Rightarrow> data_point list \<Rightarrow>
    ('m, 's) AnomalyMLModel \<times> bool" where
  "train tk self training_data =
     (case prepare_features tk self training_data of
        Inl e \<Rightarrow> (self, False)
      | Inr features_df \<Rightarrow>
          if features_df = [] then (self, False)
          else
            (case fit_transform tk (scaler self) features_df of
               (scaler', Inl e) \<Rightarrow> (self\<lparr>scaler := scaler'\<rparr>, False)
             | (scaler', Inr features_scaled) \<Rightarrow>
                 (case fit tk (model self) features_scaled of
                    (model', Inl e) \<Rightarrow> (self\<lparr>scaler := scaler', model := model'\<rparr>, False)
                  | (model', Inr u) \<Rightarrow>
                      (self\<lparr>scaler := scaler', model := model', is_trained := True\<rparr>, True))))"

definition get_severity_from_score :: "real \<Rightarrow> string" where
  "get_severity_from_score score =
     (if score < - (5 / 10) then ''critical''
      else if score < - (3 / 10) then ''high''
      else if score < - (1 / 10) then ''medium''
      else ''low'')"

record ml_anomaly = anomaly +
  data_timestamp :: instant
  anomaly_score :: real
  model_type :: string
  features_used :: "string list"

text \<open>
  The loop over \<open>enumerate(zip(predictions, anomaly_scores))\<close>; \<open>data_points[i]\<close> raises
  \<open>IndexError\<close> past the end of the input list.
\<close>

fun ml_loop :: "data_point list \<Rightarrow> string list \<Rightarrow> nat \<Rightarrow> (int \<times> real) list \<Rightarrow> error + ml_anomaly list" where
  "ml_loop data_points cols i [] = Inr []"
| "ml_loop data_points cols i ((prediction, score) # rest) =
     (if prediction = - 1 then
        (if i < length data_points then
           (case ml_loop data_points cols (Suc i) rest of
              Inl e \<Rightarrow> Inl e
            | Inr anomalies \<Rightarrow>
                Inr (\<lparr>a_symbol = dp_symbol (data_points ! i), anomaly_type = ''ml_detected'',
                      severity = get_severity_from_score score,
                      data_timestamp = dp_timestamp (data_points ! i),
                      anomaly_score = score, model_type = ''isolation_forest'',
                      features_used = cols\<rparr> # anomalies))
         else Inl (IndexError ''list index out of range''))
      else ml_loop data_points cols (Suc i) rest)"

definition predict_try :: "('m, 's) toolkit \<Rightarrow> ('m, 's) AnomalyMLModel \<Rightarrow> data_point list \<Rightarrow>
    error + ml_anomaly list" where
  "predict_try tk self data_points =
     (case prepare_features tk self data_points of
        Inl e \<Rightarrow> Inl e
      | Inr features_df \<Rightarrow>
          if features_df = [] then Inr []
          else
            (case transform tk (scaler self) features_df of
               Inl e \<Rightarrow> Inl e
             | Inr features_scaled \<Rightarrow>
                 (case predict tk (model self) features_scaled of
                    Inl e \<Rightarrow> Inl e
                  | Inr predictions \<Rightarrow>
                      (case decision_function tk (model self) features_scaled of
                         Inl e \<Rightarrow> Inl e
                       | Inr anomaly_scores \<Rightarrow>
                           ml_loop data_points (feature_columns self) 0
                             (zip predictions anomaly_scores)))))"

text \<open>
  \<open>predict_anomalies\<close>: the guard on \<open>is_trained\<close> stands before the \<open>try\<close>, whose handler
  turns every exception into the empty list.
\<close>

definition predict_anomalies :: "('m, 's) toolkit \<Rightarrow> ('m, 's) AnomalyMLModel \<Rightarrow> data_point list \<Rightarrow>
    error + ml_anomaly list" where
  "predict_anomalies tk self data_points =
     (if \<not> is_trained self then Inr []
      else (case predict_try tk self data_points of Inl e \<Rightarrow> Inr [] | Inr anomalies \<Rightarrow> Inr anomalies))"

text \<open>
  \<open>load_model\<close>: the five assignments in the order of the source; a missing key raises
  \<open>KeyError\<close> at its assignment, after the earlier ones have taken effect.
\<close>

definition load_model :: "('m, 's) toolkit \<Rightarrow> ('m, 's) AnomalyMLModel \<Rightarrow> string \<Rightarrow>
    ('m, 's) AnomalyMLModel \<times> bool" where
  "load_model tk self filepath =
     (case joblib_load tk filepath of
        Inl e \<Rightarrow> (self, False)
      | Inr d \<Rightarrow>
          (case md_model d of
             None \<Rightarrow> (self, False)
           | Some m \<Rightarrow>
               (case md_scaler d of
                  None \<Rightarrow> (self\<lparr>model := m\<rparr>, False)
                | Some s \<Rightarrow>
                    (case md_is_trained d of
                       None \<Rightarrow> (self\<lparr>model := m, scaler := s\<rparr>, False)
                     | Some t \<Rightarrow>
                         (case md_feature_columns d of
                            None \<Rightarrow> (self\<lparr>model := m, scaler := s, is_trained := t\<rparr>, False)
                          | Some cols \<Rightarrow>
                              (case md_contamination d of
                                 None \<Rightarrow>
                                   (self\<lparr>model := m, scaler := s, is_trained := t,
                                         feature_columns := cols\<rparr>, False)
                               | Some c \<Rightarrow>
                                   (self\<lparr>model := m, scaler := s, is_trained := t,
                                         feature_columns := cols, contamination := c\<rparr>, True)))))))"

text \<open>
  \<open>AnomalyMLModel.__init__\<close>: \<open>new_model\<close> and \<open>new_scaler\<close> are the freshly constructed
  \<open>IsolationForest\<close> and \<open>StandardScaler\<close>.
\<close>

definition AnomalyMLModel_init :: "real \<Rightarrow> 'm \<Rightarrow> 's \<Rightarrow> ('m, 's) AnomalyMLModel" where
  "AnomalyMLModel_init c new_model new_scaler =
     \<lparr>contamination = c, model = new_model, scaler = new_scaler, is_trained = False,
      feature_columns = [''price'', ''volume'', ''price_change_pct'', ''volume_change_pct'',
        ''price_volatility'', ''volume_volatility'', ''time_since_last_update'']\<rparr>"

section \<open>Example inputs\<close>

text \<open>
  The pandas pipeline of \<open>prepare_features\<close> on a list of one data point. Without the key
  \<open>volume\<close> the frame has no such column and \<open>df.groupby('symbol')['volume']\<close> raises
  \<open>KeyError\<close>. With it, every difference, change and deviation of the only row is NaN,
  which \<open>fillna(0)\<close> turns into 0; selecting a column the frame does not have raises
  \<open>KeyError\<close>. Longer lists do not occur in the evaluations further down.
\<close>

definition single_row :: "data_point \<Rightarrow> real \<Rightarrow> (string \<times> real) list" where
  "single_row p v =
     [(''price'', dp_price p), (''volume'', v), (''price_change'', 0), (''price_change_pct'', 0),
      (''volume_change'', 0), (''volume_change_pct'', 0), (''price_volatility'', 0),
      (''volume_volatility'', 0), (''time_since_last_update'', 0)]"

fun select_columns :: "string list \<Rightarrow> (string \<times> real) list \<Rightarrow> error + real list" where
  "select_columns [] row = Inr []"
| "select_columns (c # cs) row =
     (case map_of row c of
        None \<Rightarrow> Inl (KeyError c)
      | Some x \<Rightarrow> (case select_columns cs row of Inl e \<Rightarrow> Inl e | Inr xs \<Rightarrow> Inr (x # xs)))"

definition single_point_features :: "string list \<Rightarrow> data_point list \<Rightarrow> error + features" where
  "single_point_features cols dps =
     (case dps of
        [p] \<Rightarrow>
          (case dp_volume p of
             None \<Rightarrow> Inl (KeyError ''volume'')
           | Some v \<Rightarrow>
               (case select_columns cols (single_row p v) of
                  Inl e \<Rightarrow> Inl e
                | Inr r \<Rightarrow> Inr [r]))
      | _ \<Rightarrow> Inl (OtherError ''more than one data point''))"

text \<open>
  Concrete inputs for the evaluations further down. The scaler and the forest are
  counters of the times they were fitted. In \<open>rejecting_toolkit\<close> the forest's \<open>fit\<close>
  raises, as scikit-learn does for a contamination outside its range, and the loaded
  dict lacks the key \<open>scaler\<close>; in \<open>working_toolkit\<close> fitting and loading succeed and the
  forest flags every row; in \<open>unreadable_toolkit\<close> the model file cannot be read.
  \<open>fresh_model\<close> is constructed with a contamination of 0.6, \<open>default_model\<close> with the
  default of the constructor.
\<close>

definition rejecting_toolkit :: "(nat, nat) toolkit" where
  "rejecting_toolkit =
     \<lparr>featurize = single_point_features,
      fit_transform = (\<lambda>s X. (Suc s, Inr X)),
      fit = (\<lambda>m X. (m, Inl (ValueError ''contamination''))),
      transform = (\<lambda>s X. Inr X),
      predict = (\<lambda>m X. Inr (map (\<lambda>r. 1) X)),
      decision_function = (\<lambda>m X. Inr (map (\<lambda>r. 0) X)),
      joblib_load = (\<lambda>path. Inr \<lparr>md_model = Some 7, md_scaler = None,
          md_is_trained = Some True, md_feature_columns = Some [''price''],
          md_contamination = Some (1 / 10)\<rparr>)\<rparr>"

definition working_toolkit :: "(nat, nat) toolkit" where
  "working_toolkit =
     \<lparr>featurize = single_point_features,
      fit_transform = (\<lambda>s X. (Suc s, Inr X)),
      fit = (\<lambda>m X. (Suc m, Inr ())),
      transform = (\<lambda>s X. Inr X),
      predict = (\<lambda>m X. Inr (map (\<lambda>r. - 1) X)),
      decision_function = (\<lambda>m X. Inr (map (\<lambda>r. - 1) X)),
      joblib_load = (\<lambda>path. Inr \<lparr>md_model = Some 7, md_scaler = Some 8,
          md_is_trained = Some True, md_feature_columns = Some [''price''],
          md_contamination = Some (1 / 10)\<rparr>)\<rparr>"

definition unreadable_toolkit :: "(nat, nat) toolkit" where
  "unreadable_toolkit = working_toolkit\<lparr>joblib_load := (\<lambda>path. Inl (OtherError ''no such file''))\<rparr>"

definition fresh_model :: "(nat, nat) AnomalyMLModel" where
  "fresh_model = AnomalyMLModel_init (6 / 10) 0 0"

definition default_model :: "(nat, nat) AnomalyMLModel" where
  "default_model = AnomalyMLModel_init (1 / 10) 0 0"

definition one_point :: "data_point list" where
  "one_point = [\<lparr>dp_symbol = ''AAPL'', dp_timestamp = 0, dp_price = 1000, dp_volume = Some 100\<rparr>]"

definition point_without_volume :: "data_point list" where
  "point_without_volume = [\<lparr>dp_symbol = ''AAPL'', dp_timestamp = 0, dp_price = 1000, dp_volume = None\<rparr>]"

section \<open>Alert rules\<close>















section \<open>Grouping and sorting of the data frame\<close>

text \<open>
  \<open>df['symbol'].unique()\<close>: the distinct symbols in the order of their first appearance.
\<close>

fun unique :: "'a list \<Rightarrow> 'a list" where
  "unique [] = []"
| "unique (x # xs) = x # filter (\<lambda>y. y \<noteq> x) (unique xs)"

text \<open>
  \<open>DataFrame.sort_values('timestamp')\<close> is pandas code. Its default algorithm is a
  quicksort, which fixes no order among rows of equal timestamp, so the detectors take the
  sorting function as the parameter \<open>sort_values\<close>. What pandas guarantees is that the
  result holds the same rows, ordered by timestamp.
\<close>

definition sorts_by_timestamp :: "(data_point list \<Rightarrow> data_point list) \<Rightarrow> bool" where
  "sorts_by_timestamp sort_values \<longleftrightarrow>
     (\<forall>rows. mset (sort_values rows) = mset rows \<and> sorted (map dp_timestamp (sort_values rows)))"

text \<open>\<open>df[df['symbol'] == symbol].sort_values('timestamp')\<close>\<close>

definition symbol_rows :: "(data_point list \<Rightarrow> data_point list) \<Rightarrow> data_point list \<Rightarrow> string \<Rightarrow> data_point list" where
  "symbol_rows sort_values data_points smb =
     sort_values (filter (\<lambda>p. dp_symbol p = smb) data_points)"

section \<open>The missing-data detector: \<open>algorithms/missing_data_detector.py\<close>\<close>

record md_anomaly = anomaly +
  gap_minutes :: real
  threshold_minutes :: real
  last_data_time :: instant
  next_data_time :: instant

text \<open>The dict built for a gap between \<open>previous_time\<close> and \<open>current_time\<close>.\<close>

definition gap_anomaly :: "real \<Rightarrow> string \<Rightarrow> instant \<Rightarrow> instant \<Rightarrow> md_anomaly" where
  "gap_anomaly threshold smb previous_time current_time =
     (let gap = (current_time - previous_time) / 60 in
      \<lparr>a_symbol = smb, anomaly_type = ''missing_data'',
       severity = (if gap > threshold * 2 then ''high'' else ''medium''),
       gap_minutes = gap, threshold_minutes = threshold,
       last_data_time = previous_time, next_data_time = current_time\<rparr>)"

text \<open>The body of \<open>for i in range(1, len(symbol_data))\<close>, appending to \<open>anomalies\<close>.\<close>

definition gap_step :: "real \<Rightarrow> string \<Rightarrow> data_point list \<Rightarrow> md_anomaly list \<Rightarrow> nat \<Rightarrow> md_anomaly list" where
  "gap_step threshold smb symbol_data anomalies i =
     (let current_time = dp_timestamp (symbol_data ! i);
          previous_time = dp_timestamp (symbol_data ! (i - 1));
          gap = (current_time - previous_time) / 60
      in if gap > threshold then anomalies @ [gap_anomaly threshold smb previous_time current_time]
         else anomalies)"

definition MissingDataDetector_detect :: "(data_point list \<Rightarrow> data_point list) \<Rightarrow> real \<Rightarrow>
    data_point list \<Rightarrow> md_anomaly list" where
  "MissingDataDetector_detect sort_values threshold data_points =
     (if data_points = [] then []
      else foldl (\<lambda>anomalies smb.
                    let symbol_data = symbol_rows sort_values data_points smb
                    in foldl (gap_step threshold smb symbol_data) anomalies
                         [1..<length symbol_data])
             [] (unique (map dp_symbol data_points)))"

text \<open>
  For the statement of the property: the pairs of neighbours of a list, and the times of
  a symbol's points in ascending order.
\<close>

definition consecutive :: "'a list \<Rightarrow> ('a \<times> 'a) list" where
  "consecutive xs = zip xs (tl xs)"

definition times_of :: "data_point list \<Rightarrow> string \<Rightarrow> instant list" where
  "times_of data_points smb = sort (map dp_timestamp (filter (\<lambda>p. dp_symbol p = smb) data_points))"

text \<open>
  The anomalies expected for a symbol whose points have the ascending times \<open>ts\<close>: one for
  each pair of neighbours more than \<open>threshold\<close> minutes apart.
\<close>

definition expected_gaps :: "real \<Rightarrow> string \<Rightarrow> instant list \<Rightarrow> md_anomaly list" where
  "expected_gaps threshold smb ts =
     map (\<lambda>(t0, t1). gap_anomaly threshold smb t0 t1)
       (filter (\<lambda>(t0, t1). (t1 - t0) / 60 > threshold) (consecutive ts))"

text \<open>
  The scenario of the repository's test: two AAPL points two hours apart, the later one
  first, and one MSFT point.
\<close>

definition two_hour_gap :: "data_point list" where
  "two_hour_gap =
     [\<lparr>dp_symbol = ''AAPL'', dp_timestamp = 7200, dp_price = 150, dp_volume = None\<rparr>,
      \<lparr>dp_symbol = ''MSFT'', dp_timestamp = 60, dp_price = 300, dp_volume = None\<rparr>,
      \<lparr>dp_symbol = ''AAPL'', dp_timestamp = 0, dp_price = 149, dp_volume = None\<rparr>]"

section \<open>Float results that need not be finite\<close>

text \<open>
  Dividing by zero gives an infinity or NaN in IEEE arithmetic, and the detectors
  compare such values with their thresholds. \<open>fdiv\<close> is the division of two finite
  floats; the other operations take one possibly non-finite operand and a finite one.
\<close>

datatype fval = Num real | PosInf | NegInf | NaN

definition fdiv :: "real \<Rightarrow> real \<Rightarrow> fval" where
  "fdiv x y =
     (if y \<noteq> 0 then Num (x / y)
      else if x > 0 then PosInf else if x < 0 then NegInf else NaN)"

fun fabs :: "fval \<Rightarrow> fval" where
  "fabs (Num x) = Num \<bar>x\<bar>"
| "fabs PosInf = PosInf"
| "fabs NegInf = PosInf"
| "fabs NaN = NaN"

text \<open>\<open>v > c\<close> for a finite \<open>c\<close>; every comparison with NaN is false.\<close>

fun fgt :: "fval \<Rightarrow> real \<Rightarrow> bool" where
  "fgt (Num x) c = (x > c)"
| "fgt PosInf c = True"
| "fgt NegInf c = False"
| "fgt NaN c = False"

fun isna :: "fval \<Rightarrow> bool" where
  "isna NaN = True"
| "isna v = False"

section \<open>Rounding to double precision\<close>

text \<open>
  The price column is a NumPy array of doubles, and every arithmetic operation on it
  rounds its exact result to the nearest double, ties to the even significand (IEEE 754
  binary64: 53 significant bits, exponents from -1022 to 1023, gradual underflow, overflow
  to an infinity). \<open>round_half_even\<close> rounds a real to the nearest integer, ties to even;
  \<open>binary64 x\<close> is the double nearest to the real \<open>x\<close>. Zeros carry no sign here.
\<close>

definition round_half_even :: "real \<Rightarrow> int" where
  "round_half_even x =
     (let f = \<lfloor>x\<rfloor>; d = x - of_int f
      in if d < 1 / 2 then f else if d > 1 / 2 then f + 1 else if even f then f else f + 1)"

definition binary64 :: "real \<Rightarrow> fval" where
  "binary64 x =
     (if x = 0 then Num 0
      else let e = max \<lfloor>log 2 \<bar>x\<bar>\<rfloor> (- 1022);
               ulp = 2 powi (e - 52);
               r = of_int (round_half_even (x / ulp)) * ulp
           in if \<bar>r\<bar> \<ge> 2 ^ 1024 then (if x > 0 then PosInf else NegInf) else Num r)"

text \<open>
  Division, subtraction and multiplication of doubles: the exact result, rounded. The
  first operand of a subtraction or multiplication may be non-finite.
\<close>

definition ddiv :: "real \<Rightarrow> real \<Rightarrow> fval" where
  "ddiv x y =
     (if y \<noteq> 0 then binary64 (x / y)
      else if x > 0 then PosInf else if x < 0 then NegInf else NaN)"

fun dminus :: "fval \<Rightarrow> real \<Rightarrow> fval" where
  "dminus (Num x) c = binary64 (x - c)"
| "dminus PosInf c = PosInf"
| "dminus NegInf c = NegInf"
| "dminus NaN c = NaN"

fun dtimes :: "fval \<Rightarrow> real \<Rightarrow> fval" where
  "dtimes (Num x) c = binary64 (x * c)"
| "dtimes PosInf c = (if c > 0 then PosInf else if c < 0 then NegInf else NaN)"
| "dtimes NegInf c = (if c > 0 then NegInf else if c < 0 then PosInf else NaN)"
| "dtimes NaN c = NaN"

text \<open>\<open>v > w\<close> for two floats; every comparison with NaN is false.\<close>

fun fval_gt :: "fval \<Rightarrow> fval \<Rightarrow> bool" where
  "fval_gt NaN w = False"
| "fval_gt v NaN = False"
| "fval_gt (Num x) (Num y) = (x > y)"
| "fval_gt (Num x) PosInf = False"
| "fval_gt (Num x) NegInf = True"
| "fval_gt PosInf PosInf = False"
| "fval_gt PosInf w = True"
| "fval_gt NegInf w = False"

section \<open>The price-movement detector: \<open>algorithms/price_movement_detector.py\<close>\<close>

text \<open>
  \<open>Series.pct_change()\<close> computes \<open>data / data.shift(1) - 1\<close> on the column of doubles:
  NaN in the first row, then each value divided by the one before it, minus one. The
  prices and the threshold are doubles.
\<close>

fun pct_change :: "real list \<Rightarrow> fval list" where
  "pct_change [] = []"
| "pct_change (p # ps) = NaN # map2 (\<lambda>prev cur. dminus (ddiv cur prev) 1) (p # ps) ps"

record pm_anomaly = anomaly +
  price_change_percent :: fval
  threshold_percent :: real
  current_price :: real
  pm_timestamp :: instant

text \<open>
  The dict built for a row whose \<open>price_change\<close> is above the threshold;
  \<open>self.threshold_percent * 2\<close> is a product of doubles.
\<close>

definition movement_anomaly :: "real \<Rightarrow> string \<Rightarrow> data_point \<Rightarrow> fval \<Rightarrow> pm_anomaly" where
  "movement_anomaly threshold smb row price_change =
     (let abs_change = fabs price_change in
      \<lparr>a_symbol = smb, anomaly_type = ''price_movement'',
       severity = (if fval_gt abs_change (binary64 (threshold * 2)) then ''critical'' else ''high''),
       price_change_percent = price_change, threshold_percent = threshold,
       current_price = dp_price row, pm_timestamp = dp_timestamp row\<rparr>)"

text \<open>The body of \<open>for idx, row in symbol_data.iterrows()\<close>.\<close>

definition movement_step :: "real \<Rightarrow> string \<Rightarrow> pm_anomaly list \<Rightarrow> data_point \<times> fval \<Rightarrow> pm_anomaly list" where
  "movement_step threshold smb anomalies row_change =
     (case row_change of (row, price_change) \<Rightarrow>
        if isna price_change then anomalies
        else let abs_change = fabs price_change in
          if fgt abs_change threshold
          then anomalies @ [movement_anomaly threshold smb row price_change]
          else anomalies)"

definition PriceMovementDetector_detect :: "(data_point list \<Rightarrow> data_point list) \<Rightarrow> real \<Rightarrow>
    data_point list \<Rightarrow> pm_anomaly list" where
  "PriceMovementDetector_detect sort_values threshold data_points =
     (if data_points = [] then []
      else foldl (\<lambda>anomalies smb.
                    let symbol_data = symbol_rows sort_values data_points smb
                    in if length symbol_data < 2 then anomalies
                       else let price_change =
                                  map (\<lambda>c. dtimes c 100) (pct_change (map dp_price symbol_data))
                            in foldl (movement_step threshold smb) anomalies
                                 (zip symbol_data price_change))
             [] (unique (map dp_symbol data_points)))"

text \<open>
  For the statement of the property. \<open>percent_change\<close> is the percent change of the claim,
  \<open>(p[i] - p[i-1]) / p[i-1] * 100\<close>, as a real number, with the float result of a zero
  divisor. \<open>double_change\<close> is the change as the doubles give it,
  \<open>(p[i] / p[i-1] - 1) * 100\<close> with each of the three operations rounded. \<open>exceeds\<close> says
  that the absolute value of a change is strictly above a threshold, \<open>exceeds_twice\<close> that
  it is strictly above the double \<open>threshold * 2\<close>.
\<close>

definition percent_change :: "real \<Rightarrow> real \<Rightarrow> fval" where
  "percent_change prev cur =
     (if prev = 0 then (if cur > 0 then PosInf else if cur < 0 then NegInf else NaN)
      else Num ((cur - prev) / prev * 100))"

definition double_change :: "real \<Rightarrow> real \<Rightarrow> fval" where
  "double_change prev cur = dtimes (dminus (ddiv cur prev) 1) 100"

fun exceeds :: "fval \<Rightarrow> real \<Rightarrow> bool" where
  "exceeds (Num x) threshold = (\<bar>x\<bar> > threshold)"
| "exceeds PosInf threshold = True"
| "exceeds NegInf threshold = True"
| "exceeds NaN threshold = False"

definition exceeds_twice :: "fval \<Rightarrow> real \<Rightarrow> bool" where
  "exceeds_twice c threshold = fval_gt (fabs c) (binary64 (threshold * 2))"

text \<open>The change of row \<open>i\<close> of a symbol's rows against row \<open>i - 1\<close>.\<close>

definition change_at :: "data_point list \<Rightarrow> nat \<Rightarrow> fval" where
  "change_at rows i = double_change (dp_price (rows ! (i - 1))) (dp_price (rows ! i))"

text \<open>A symbol with a ten-dollar rise from 150 at the same instant, as in the repository's test.\<close>

definition ten_dollar_rise :: "data_point list" where
  "ten_dollar_rise =
     [\<lparr>dp_symbol = ''AAPL'', dp_timestamp = 0, dp_price = 150, dp_volume = None\<rparr>,
      \<lparr>dp_symbol = ''MSFT'', dp_timestamp = 0, dp_price = 0, dp_volume = None\<rparr>,
      \<lparr>dp_symbol = ''AAPL'', dp_timestamp = 60, dp_price = 160, dp_volume = None\<rparr>,
      \<lparr>dp_symbol = ''MSFT'', dp_timestamp = 60, dp_price = 5, dp_volume = None\<rparr>,
      \<lparr>dp_symbol = ''AAPL'', dp_timestamp = 120, dp_price = 161, dp_volume = None\<rparr>]"

text \<open>A price that rises from 100 by exactly five percent, and one that rises by exactly ten.\<close>

definition five_percent_rise :: "data_point list" where
  "five_percent_rise =
     [\<lparr>dp_symbol = ''AAPL'', dp_timestamp = 0, dp_price = 100, dp_volume = None\<rparr>,
      \<lparr>dp_symbol = ''AAPL'', dp_timestamp = 60, dp_price = 105, dp_volume = None\<rparr>]"

definition ten_percent_rise :: "data_point list" where
  "ten_percent_rise =
     [\<lparr>dp_symbol = ''AAPL'', dp_timestamp = 0, dp_price = 100, dp_volume = None\<rparr>,
      \<lparr>dp_symbol = ''AAPL'', dp_timestamp = 60, dp_price = 110, dp_volume = None\<rparr>]"

text \<open>
  The anomalies expected for a symbol with the time-sorted rows \<open>rows\<close>: one for each row
  from the second on whose change against the row before it is above the threshold.
\<close>

definition expected_movements :: "real \<Rightarrow> string \<Rightarrow> data_point list \<Rightarrow> pm_anomaly list" where
  "expected_movements threshold smb rows =
     map (\<lambda>i. movement_anomaly threshold smb (rows ! i) (change_at rows i))
       (filter (\<lambda>i. exceeds (change_at rows i) threshold) [1..<length rows])"

section \<open>The time-series model: \<open>TimeSeriesAnomalyModel\<close> of \<open>anomaly_ml_model.py\<close>\<close>

text \<open>
  A column of the frame is a list of optional numbers, \<open>None\<close> being NaN. The price column
  has a number in every row; the volume column has NaN in the rows whose dict has no
  volume.
\<close>

type_synonym column = "real option list"

definition mean :: "real list \<Rightarrow> real" where
  "mean xs = sum_list xs / real (length xs)"

text \<open>The standard deviation as pandas computes it, with the divisor \<open>n - 1\<close>.\<close>

definition sample_std :: "real list \<Rightarrow> real" where
  "sample_std xs = sqrt (sum_list (map (\<lambda>x. (x - mean xs)\<^sup>2) xs) / (real (length xs) - 1))"

text \<open>
  \<open>Series.rolling(window=w)\<close>: the window of row \<open>idx\<close> holds the rows \<open>idx - w + 1\<close> to
  \<open>idx\<close>. The statistic is NaN while the window is not full, when a value in it is NaN,
  and when it has fewer observations than the statistic needs (one for the mean, two for
  the standard deviation).
\<close>

definition window_at :: "nat \<Rightarrow> column \<Rightarrow> nat \<Rightarrow> column option" where
  "window_at w col idx = (if idx + 1 < w then None else Some (take w (drop (idx + 1 - w) col)))"

definition rolling :: "nat \<Rightarrow> (real list \<Rightarrow> real) \<Rightarrow> nat \<Rightarrow> column \<Rightarrow> column" where
  "rolling w stat needed col =
     map (\<lambda>idx. case window_at w col idx of
                  None \<Rightarrow> None
                | Some win \<Rightarrow>
                    (case those win of
                       None \<Rightarrow> None
                     | Some obs \<Rightarrow> if length obs < needed then None else Some (stat obs)))
       [0..<length col]"

text \<open>\<open>(data[column] - rolling_mean) / rolling_std\<close>, row by row.\<close>

definition zscore_row :: "real option \<times> real option \<times> real option \<Rightarrow> fval" where
  "zscore_row r =
     (case r of
        (Some x, Some mu, Some sigma) \<Rightarrow> fdiv (x - mu) sigma
      | _ \<Rightarrow> NaN)"

definition z_scores :: "nat \<Rightarrow> column \<Rightarrow> fval list" where
  "z_scores w col =
     map zscore_row (zip col (zip (rolling w mean 1 col) (rolling w sample_std 2 col)))"









section \<open>Health of the registry\<close>

text \<open>
  C8. \<open>DataSourceManager.is_healthy()\<close> is true iff the registry holds at least one
  adapter and every held adapter is connected; it is false on the empty mapping.
\<close>

theorem C8_is_healthy_iff:
  "(is_healthy m \<longleftrightarrow>
      adapters m \<noteq> [] \<and> (\<forall>a \<in> set (map snd (adapters m)). is_connected a))
   \<and> (adapters m = [] \<longrightarrow> \<not> is_healthy m)"
  by (simp add: is_healthy_def list_all_iff)

theorem C8_is_healthy_witness:
  "is_healthy \<lparr>adapters =
      [(''gemfire_cache'', \<lparr>name = ''gemfire_cache'', adapter_type = GEMFIRE,
          expected_symbols = [''AAPL''], connected = True, last_heartbeat = None\<rparr>)]\<rparr>
   \<and> \<not> is_healthy \<lparr>adapters = []\<rparr>"
  using C8_is_healthy_iff [of "\<lparr>adapters =
      [(''gemfire_cache'', \<lparr>name = ''gemfire_cache'', adapter_type = GEMFIRE,
          expected_symbols = [''AAPL''], connected = True, last_heartbeat = None\<rparr>)]\<rparr>"]
    C8_is_healthy_iff [of "\<lparr>adapters = []\<rparr>"]
  by (simp add: is_connected_def)

section \<open>Heartbeat bookkeeping\<close>

text \<open>
  C10, as claimed: \<open>BaseDataAdapter.heartbeat\<close> never raises. It does: when the task
  awaiting \<open>test_connection\<close> is cancelled, \<open>asyncio.CancelledError\<close> is not an
  \<open>Exception\<close>, the handler does not catch it, and \<open>heartbeat\<close> raises it.
\<close>

theorem C10_heartbeat_raises_counterexample:
  "heartbeat (Raises (BaseException ''CancelledError'')) 1700000060
      \<lparr>name = ''mssql_historical'', adapter_type = MSSQL, expected_symbols = [],
       connected = True, last_heartbeat = Some 1700000000\<rparr>
    = (\<lparr>name = ''mssql_historical'', adapter_type = MSSQL, expected_symbols = [],
        connected = True, last_heartbeat = Some 1700000000\<rparr>,
       Raises (BaseException ''CancelledError''))"
  by (simp add: heartbeat_def)

text \<open>
  C10, amended: \<open>BaseDataAdapter.heartbeat\<close> never raises an \<open>Exception\<close>. If
  \<open>test_connection\<close> raises an \<open>Exception\<close>, it returns False and leaves the
  last-heartbeat timestamp unchanged; if \<open>test_connection\<close> returns normally (True or
  False), it returns that value and sets the last-heartbeat timestamp to the current time;
  if \<open>test_connection\<close> raises an exception that is not an \<open>Exception\<close>, \<open>heartbeat\<close>
  raises it and leaves the adapter unchanged.
\<close>

theorem C10_heartbeat_amended:
  "(\<forall>e. snd (heartbeat tc now a) \<noteq> Raises (Exception e))
   \<and> (\<forall>e. tc = Raises (Exception e) \<longrightarrow> heartbeat tc now a = (a, Returns False))
   \<and> (\<forall>r. tc = Returns r \<longrightarrow>
         snd (heartbeat tc now a) = Returns r
         \<and> get_last_heartbeat (fst (heartbeat tc now a)) = Some now
         \<and> fst (heartbeat tc now a) = a\<lparr>last_heartbeat := Some now\<rparr>)
   \<and> (\<forall>b. tc = Raises (BaseException b) \<longrightarrow>
         heartbeat tc now a = (a, Raises (BaseException b)))
   \<and> ((\<exists>r. snd (heartbeat tc now a) = Returns r) \<or> (\<exists>b. tc = Raises (BaseException b)))"
  by (auto simp: heartbeat_def get_last_heartbeat_def split: outcome.splits raised.splits)

theorem C10_heartbeat_witness:
  "heartbeat (Raises (Exception (OtherError ''connection reset''))) 1700000060
      \<lparr>name = ''mssql_historical'', adapter_type = MSSQL, expected_symbols = [],
       connected = True, last_heartbeat = Some 1700000000\<rparr>
    = (\<lparr>name = ''mssql_historical'', adapter_type = MSSQL, expected_symbols = [],
        connected = True, last_heartbeat = Some 1700000000\<rparr>, Returns False)
   \<and> heartbeat (Returns False) 1700000060
      \<lparr>name = ''mssql_historical'', adapter_type = MSSQL, expected_symbols = [],
       connected = True, last_heartbeat = Some 1700000000\<rparr>
    = (\<lparr>name = ''mssql_historical'', adapter_type = MSSQL, expected_symbols = [],
        connected = True, last_heartbeat = Some 1700000060\<rparr>, Returns False)"
  using C10_heartbeat_amended [of "Raises (Exception (OtherError ''connection reset''))" 1700000060
      "\<lparr>name = ''mssql_historical'', adapter_type = MSSQL, expected_symbols = [],
       connected = True, last_heartbeat = Some 1700000000\<rparr>"]
    C10_heartbeat_amended [of "Returns False" 1700000060
      "\<lparr>name = ''mssql_historical'', adapter_type = MSSQL, expected_symbols = [],
       connected = True, last_heartbeat = Some 1700000000\<rparr>"]
  by (auto simp: prod_eq_iff)

section \<open>Fan-out of the manager and failing adapters\<close>





lemma await_all_no_exception: "await_all acc tasks \<noteq> Inl (Exception e)"
  by (induction tasks arbitrary: acc) (auto split: outcome.splits raised.splits)








section \<open>The limit of the Gemfire adapter\<close>

lemma gemfire_points_length:
  assumes "\<And>d. d \<in> set ds \<Longrightarrow> \<exists>t. map_of d ''timestamp'' = Some (PyIso t)"
  shows "\<exists>ps. gemfire_points self now smb ds = Inr ps \<and> length ps = length ds"
  using assms by (induction ds) fastforce+

lemma sample_has_timestamp:
  "d \<in> set (py_slice_to limit (get_from_cache now key)) \<Longrightarrow>
     \<exists>t. map_of d ''timestamp'' = Some (PyIso t)"
proof -
  assume "d \<in> set (py_slice_to limit (get_from_cache now key))"
  then have "d \<in> set (get_from_cache now key)"
    by (auto simp: py_slice_to_def dest: in_set_takeD split: if_splits)
  then obtain i where "d = sample_record now i"
    by (auto simp: get_from_cache_def)
  then show ?thesis
    by (simp add: sample_record_def)
qed

lemma length_sample_slice:
  "0 \<le> limit \<Longrightarrow> length (py_slice_to limit (get_from_cache now key)) = min 5 (nat limit)"
  by (simp add: py_slice_to_def get_from_cache_def min.commute)

lemma gemfire_symbols_length:
  assumes "0 \<le> limit"
  shows "\<exists>ps. gemfire_symbols self now limit symbols = Inr ps
           \<and> length ps = length symbols * min 5 (nat limit)"
proof (induction symbols)
  case Nil
  then show ?case by simp
next
  case (Cons smb rest)
  from gemfire_points_length [of "py_slice_to limit (get_from_cache now (''market_data:'' @ smb))" self now smb]
  obtain ps where ps: "gemfire_points self now smb
        (py_slice_to limit (get_from_cache now (''market_data:'' @ smb))) = Inr ps"
      "length ps = min 5 (nat limit)"
    using sample_has_timestamp length_sample_slice [OF assms] by metis
  from Cons obtain qs where qs: "gemfire_symbols self now limit rest = Inr qs"
      "length qs = length rest * min 5 (nat limit)"
    by blast
  have "get_from_cache now (''market_data:'' @ smb) \<noteq> []"
    by (simp add: get_from_cache_def upt_rec)
  then show ?case
    using ps qs by (simp add: Let_def)
qed

text \<open>A connected adapter returns up to five points for each symbol.\<close>

lemma gemfire_latest_count:
  "connected self \<Longrightarrow> 0 \<le> limit \<Longrightarrow>
     length (gemfire_get_latest_data self now symbols limit) = length symbols * min 5 (nat limit)"
  using gemfire_symbols_length [of limit self now symbols]
  by (auto simp: gemfire_get_latest_data_def gemfire_try_latest_def)

text \<open>The sibling method does cap the whole result.\<close>

lemma gemfire_historical_capped:
  "0 \<le> limit \<Longrightarrow>
     length (gemfire_get_historical_data self now symbols start_time end_time limit) \<le> nat limit"
  by (simp add: gemfire_get_historical_data_def py_slice_to_def Let_def)

text \<open>
  C6. The claim is that one \<open>get_latest_data\<close> call returns at most \<open>limit\<close> points in
  total. \<open>GemfireAdapter.get_latest_data\<close> slices each symbol's cached list to \<open>limit\<close>:
  for two symbols and \<open>limit = 1\<close> a connected adapter returns two points.
\<close>

theorem C6_gemfire_limit_is_per_symbol:
  "length (gemfire_get_latest_data
      \<lparr>name = ''gemfire_cache'', adapter_type = GEMFIRE, expected_symbols = [''AAPL'', ''GOOGL''],
       connected = True, last_heartbeat = None\<rparr>
      1700000000 [''AAPL'', ''GOOGL''] 1) = 2"
  by (simp add: gemfire_get_latest_data_def gemfire_try_latest_def get_from_cache_def
        py_slice_to_def sample_record_def upt_rec)

section \<open>The untrained ML detector\<close>

lemma train_failed_keeps_flags:
  "snd (train tk self d) = False \<Longrightarrow>
     is_trained (fst (train tk self d)) = is_trained self
   \<and> feature_columns (fst (train tk self d)) = feature_columns self
   \<and> contamination (fst (train tk self d)) = contamination self"
  by (auto simp: train_def split: sum.splits prod.splits if_splits)

text \<open>
  C4. While \<open>is_trained\<close> is false, \<open>predict_anomalies\<close> returns the empty list and does
  not raise, on every input list. This is the state of a freshly constructed model, and
  still its state after a \<open>train\<close> that failed.
\<close>

theorem C4_untrained_predicts_nothing:
  "(\<not> is_trained self \<longrightarrow> predict_anomalies tk self data_points = Inr [])
   \<and> predict_anomalies tk (AnomalyMLModel_init c m0 s0) data_points = Inr []
   \<and> (snd (train tk (AnomalyMLModel_init c m0 s0) training_data) = False \<longrightarrow>
        predict_anomalies tk (fst (train tk (AnomalyMLModel_init c m0 s0) training_data)) data_points
          = Inr [])"
proof (intro conjI impI)
  show "predict_anomalies tk self data_points = Inr []" if "\<not> is_trained self"
    using that by (simp add: predict_anomalies_def)
  show "predict_anomalies tk (AnomalyMLModel_init c m0 s0) data_points = Inr []"
    by (simp add: predict_anomalies_def AnomalyMLModel_init_def)
  assume "snd (train tk (AnomalyMLModel_init c m0 s0) training_data) = False"
  from train_failed_keeps_flags [OF this]
  have "\<not> is_trained (fst (train tk (AnomalyMLModel_init c m0 s0) training_data))"
    by (simp add: AnomalyMLModel_init_def)
  then show "predict_anomalies tk (fst (train tk (AnomalyMLModel_init c m0 s0) training_data)) data_points
          = Inr []"
    by (simp add: predict_anomalies_def)
qed

text \<open>
  A forest that would flag every row: untrained, the model reports nothing; with
  \<open>is_trained\<close> set, the same call reports the row.
\<close>

theorem C4_untrained_witness:
  "predict_anomalies working_toolkit fresh_model one_point = Inr []
   \<and> predict_anomalies working_toolkit (fresh_model\<lparr>is_trained := True\<rparr>) one_point
     = Inr [\<lparr>a_symbol = ''AAPL'', anomaly_type = ''ml_detected'', severity = ''critical'',
             data_timestamp = 0, anomaly_score = - 1, model_type = ''isolation_forest'',
             features_used = feature_columns fresh_model\<rparr>]"
proof -
  have "\<not> is_trained fresh_model"
    by (simp add: fresh_model_def AnomalyMLModel_init_def)
  with C4_untrained_predicts_nothing [of fresh_model working_toolkit one_point]
  have "predict_anomalies working_toolkit fresh_model one_point = Inr []"
    by blast
  then show ?thesis
    by (simp add: predict_anomalies_def predict_try_def prepare_features_def
          get_severity_from_score_def working_toolkit_def one_point_def
          single_point_features_def single_row_def fresh_model_def AnomalyMLModel_init_def)
qed

section \<open>Failed training and failed reloading\<close>

text \<open>
  C7 as stated fails. The scaler is fitted in place before the forest is; when the
  forest's \<open>fit\<close> then raises (here: a contamination of 0.6, which scikit-learn rejects
  when fitting), \<open>train\<close> returns False with the scaler refitted: feature preparation
  gave the row of the data point, the scaler was fitted to it, the forest was not.
  \<open>load_model\<close> assigns the fields one by one; a loaded dict without the key \<open>scaler\<close>
  makes it return False with the model already replaced.
\<close>

theorem C7_partial_update_counterexample:
  "prepare_features rejecting_toolkit fresh_model one_point = Inr [[1000, 100, 0, 0, 0, 0, 0]]
   \<and> snd (train rejecting_toolkit fresh_model one_point) = False
   \<and> scaler (fst (train rejecting_toolkit fresh_model one_point)) \<noteq> scaler fresh_model
   \<and> model (fst (train rejecting_toolkit fresh_model one_point)) = model fresh_model
   \<and> snd (load_model rejecting_toolkit fresh_model ''model.pkl'') = False
   \<and> model (fst (load_model rejecting_toolkit fresh_model ''model.pkl'')) \<noteq> model fresh_model
   \<and> scaler (fst (load_model rejecting_toolkit fresh_model ''model.pkl'')) = scaler fresh_model"
  by (simp add: train_def prepare_features_def load_model_def rejecting_toolkit_def
        fresh_model_def AnomalyMLModel_init_def one_point_def
        single_point_features_def single_row_def)

text \<open>
  C7, amended. A \<open>train\<close> that returns False leaves \<open>is_trained\<close>, \<open>feature_columns\<close>
  and \<open>contamination\<close> as they were, and leaves the whole object as it was when it fails
  before the scaler is fitted (feature preparation raises or gives no rows); when the
  forest's \<open>fit\<close> raises after the scaler was fitted, the object keeps the scaler and the
  forest as these calls left them. A \<open>load_model\<close> that returns False because
  \<open>joblib.load\<close> raised leaves the whole object as it was; when a key is missing from the
  loaded dict, exactly the fields assigned before it (in the order \<open>model\<close>, \<open>scaler\<close>,
  \<open>is_trained\<close>, \<open>feature_columns\<close>, \<open>contamination\<close>) are replaced, so that no failed
  \<open>load_model\<close> changes \<open>contamination\<close>. A successful \<open>train\<close> stores the fitted scaler
  and the fitted forest together and sets \<open>is_trained\<close>; a successful \<open>load_model\<close>
  replaces all five fields by the loaded ones.
\<close>

theorem C7_failed_update_amended:
  "(snd (train tk self d) = False \<longrightarrow>
       is_trained (fst (train tk self d)) = is_trained self
     \<and> feature_columns (fst (train tk self d)) = feature_columns self
     \<and> contamination (fst (train tk self d)) = contamination self)
   \<and> ((\<exists>e. prepare_features tk self d = Inl e) \<or> prepare_features tk self d = Inr [] \<longrightarrow>
        train tk self d = (self, False))
   \<and> (prepare_features tk self d = Inr X \<and> X \<noteq> []
        \<and> fit_transform tk (scaler self) X = (scaler', Inr Y)
        \<and> fit tk (model self) Y = (model', Inl e) \<longrightarrow>
        train tk self d = (self\<lparr>scaler := scaler', model := model'\<rparr>, False))
   \<and> (snd (train tk self d) = True \<longrightarrow>
        (\<exists>X Y. prepare_features tk self d = Inr X \<and> X \<noteq> []
           \<and> fit_transform tk (scaler self) X = (scaler (fst (train tk self d)), Inr Y)
           \<and> fit tk (model self) Y = (model (fst (train tk self d)), Inr ())
           \<and> is_trained (fst (train tk self d))))
   \<and> ((\<exists>e. joblib_load tk path = Inl e) \<longrightarrow> load_model tk self path = (self, False))
   \<and> (joblib_load tk path = Inr data \<longrightarrow>
        load_model tk self path =
          (case md_model data of
             None \<Rightarrow> (self, False)
           | Some m \<Rightarrow>
             (case md_scaler data of
                None \<Rightarrow> (self\<lparr>model := m\<rparr>, False)
              | Some s \<Rightarrow>
                (case md_is_trained data of
                   None \<Rightarrow> (self\<lparr>model := m, scaler := s\<rparr>, False)
                 | Some t \<Rightarrow>
                   (case md_feature_columns data of
                      None \<Rightarrow> (self\<lparr>model := m, scaler := s, is_trained := t\<rparr>, False)
                    | Some cols \<Rightarrow>
                      (case md_contamination data of
                         None \<Rightarrow> (self\<lparr>model := m, scaler := s, is_trained := t,
                                        feature_columns := cols\<rparr>, False)
                       | Some c \<Rightarrow> (self\<lparr>model := m, scaler := s, is_trained := t,
                                        feature_columns := cols, contamination := c\<rparr>, True)))))))
   \<and> (snd (load_model tk self path) = False \<longrightarrow>
        contamination (fst (load_model tk self path)) = contamination self)
   \<and> (snd (load_model tk self path) = True \<longrightarrow>
        (\<exists>data. joblib_load tk path = Inr data
          \<and> md_model data = Some (model (fst (load_model tk self path)))
          \<and> md_scaler data = Some (scaler (fst (load_model tk self path)))
          \<and> md_is_trained data = Some (is_trained (fst (load_model tk self path)))
          \<and> md_feature_columns data = Some (feature_columns (fst (load_model tk self path)))
          \<and> md_contamination data = Some (contamination (fst (load_model tk self path)))))"
proof (intro conjI)
  show "snd (train tk self d) = False \<longrightarrow>
       is_trained (fst (train tk self d)) = is_trained self
     \<and> feature_columns (fst (train tk self d)) = feature_columns self
     \<and> contamination (fst (train tk self d)) = contamination self"
    using train_failed_keeps_flags by blast
  show "(\<exists>e. prepare_features tk self d = Inl e) \<or> prepare_features tk self d = Inr [] \<longrightarrow>
        train tk self d = (self, False)"
    by (auto simp: train_def)
  show "prepare_features tk self d = Inr X \<and> X \<noteq> []
        \<and> fit_transform tk (scaler self) X = (scaler', Inr Y)
        \<and> fit tk (model self) Y = (model', Inl e) \<longrightarrow>
        train tk self d = (self\<lparr>scaler := scaler', model := model'\<rparr>, False)"
    by (simp add: train_def)
  show "snd (train tk self d) = True \<longrightarrow>
        (\<exists>X Y. prepare_features tk self d = Inr X \<and> X \<noteq> []
           \<and> fit_transform tk (scaler self) X = (scaler (fst (train tk self d)), Inr Y)
           \<and> fit tk (model self) Y = (model (fst (train tk self d)), Inr ())
           \<and> is_trained (fst (train tk self d)))"
    by (auto simp: train_def split: sum.splits prod.splits if_splits)
  show "(\<exists>e. joblib_load tk path = Inl e) \<longrightarrow> load_model tk self path = (self, False)"
    by (auto simp: load_model_def)
  show "joblib_load tk path = Inr data \<longrightarrow>
        load_model tk self path =
          (case md_model data of
             None \<Rightarrow> (self, False)
           | Some m \<Rightarrow>
             (case md_scaler data of
                None \<Rightarrow> (self\<lparr>model := m\<rparr>, False)
              | Some s \<Rightarrow>
                (case md_is_trained data of
                   None \<Rightarrow> (self\<lparr>model := m, scaler := s\<rparr>, False)
                 | Some t \<Rightarrow>
                   (case md_feature_columns data of
                      None \<Rightarrow> (self\<lparr>model := m, scaler := s, is_trained := t\<rparr>, False)
                    | Some cols \<Rightarrow>
                      (case md_contamination data of
                         None \<Rightarrow> (self\<lparr>model := m, scaler := s, is_trained := t,
                                        feature_columns := cols\<rparr>, False)
                       | Some c \<Rightarrow> (self\<lparr>model := m, scaler := s, is_trained := t,
                                        feature_columns := cols, contamination := c\<rparr>, True))))))"
    by (simp add: load_model_def)
  show "snd (load_model tk self path) = False \<longrightarrow>
        contamination (fst (load_model tk self path)) = contamination self"
    by (auto simp: load_model_def split: sum.splits option.splits)
  show "snd (load_model tk self path) = True \<longrightarrow>
        (\<exists>data. joblib_load tk path = Inr data
          \<and> md_model data = Some (model (fst (load_model tk self path)))
          \<and> md_scaler data = Some (scaler (fst (load_model tk self path)))
          \<and> md_is_trained data = Some (is_trained (fst (load_model tk self path)))
          \<and> md_feature_columns data = Some (feature_columns (fst (load_model tk self path)))
          \<and> md_contamination data = Some (contamination (fst (load_model tk self path))))"
    by (cases "joblib_load tk path")
       (auto simp: load_model_def split: option.splits)
qed

text \<open>
  The ways to fail and the two ways to succeed, on the example inputs.
\<close>

theorem C7_failed_update_witness:
  "snd (train rejecting_toolkit fresh_model one_point) = False
   \<and> is_trained (fst (train rejecting_toolkit fresh_model one_point)) = False
   \<and> train rejecting_toolkit fresh_model one_point = (fresh_model\<lparr>scaler := 1, model := 0\<rparr>, False)
   \<and> train rejecting_toolkit fresh_model [] = (fresh_model, False)
   \<and> train rejecting_toolkit fresh_model point_without_volume = (fresh_model, False)
   \<and> load_model unreadable_toolkit fresh_model ''model.pkl'' = (fresh_model, False)
   \<and> load_model rejecting_toolkit fresh_model ''model.pkl'' = (fresh_model\<lparr>model := 7\<rparr>, False)
   \<and> contamination (fst (load_model rejecting_toolkit fresh_model ''model.pkl'')) = 6 / 10
   \<and> is_trained (fst (train working_toolkit default_model one_point))
   \<and> contamination (fst (load_model working_toolkit fresh_model ''model.pkl'')) = 1 / 10"
proof -
  have pf: "prepare_features tk (AnomalyMLModel_init c 0 0) one_point = Inr [[1000, 100, 0, 0, 0, 0, 0]]"
    if "featurize tk = single_point_features" for tk :: "(nat, nat) toolkit" and c
    using that
    by (simp add: prepare_features_def one_point_def AnomalyMLModel_init_def
          single_point_features_def single_row_def)
  have f: "snd (train rejecting_toolkit fresh_model one_point) = False"
    using pf [of rejecting_toolkit "6 / 10"]
    by (simp add: train_def rejecting_toolkit_def fresh_model_def)
  have e: "prepare_features rejecting_toolkit fresh_model [] = Inr []"
    by (simp add: prepare_features_def)
  have v: "\<exists>e. prepare_features rejecting_toolkit fresh_model point_without_volume = Inl e"
    by (simp add: prepare_features_def rejecting_toolkit_def point_without_volume_def
          single_point_features_def)
  have p: "prepare_features rejecting_toolkit fresh_model one_point = Inr [[1000, 100, 0, 0, 0, 0, 0]]
        \<and> [[1000::real, 100, 0, 0, 0, 0, 0]] \<noteq> []
        \<and> fit_transform rejecting_toolkit (scaler fresh_model) [[1000, 100, 0, 0, 0, 0, 0]]
            = (1, Inr [[1000, 100, 0, 0, 0, 0, 0]])
        \<and> fit rejecting_toolkit (model fresh_model) [[1000, 100, 0, 0, 0, 0, 0]]
            = (0, Inl (ValueError ''contamination''))"
    using pf [of rejecting_toolkit "6 / 10"]
    by (simp add: rejecting_toolkit_def fresh_model_def AnomalyMLModel_init_def)
  have l: "\<exists>e. joblib_load unreadable_toolkit ''model.pkl'' = Inl e"
    by (simp add: unreadable_toolkit_def)
  have j: "joblib_load rejecting_toolkit ''model.pkl'' =
        Inr \<lparr>md_model = Some 7, md_scaler = None, md_is_trained = Some True,
             md_feature_columns = Some [''price''], md_contamination = Some (1 / 10)\<rparr>"
    by (simp add: rejecting_toolkit_def)
  have k: "snd (load_model rejecting_toolkit fresh_model ''model.pkl'') = False"
    by (simp add: load_model_def rejecting_toolkit_def)
  have t: "snd (train working_toolkit default_model one_point) = True"
    using pf [of working_toolkit "1 / 10"]
    by (simp add: train_def working_toolkit_def default_model_def)
  have s: "snd (load_model working_toolkit fresh_model ''model.pkl'') = True"
    by (simp add: load_model_def working_toolkit_def)
  note c7 = C7_failed_update_amended
  have 1: "is_trained (fst (train rejecting_toolkit fresh_model one_point)) = False"
    using c7 [of rejecting_toolkit fresh_model one_point, THEN conjunct1] f
    by (simp add: fresh_model_def AnomalyMLModel_init_def)
  have 2: "train rejecting_toolkit fresh_model [] = (fresh_model, False)"
    using c7 [of rejecting_toolkit fresh_model "[]", THEN conjunct2, THEN conjunct1] e by blast
  have 9: "train rejecting_toolkit fresh_model point_without_volume = (fresh_model, False)"
    using c7 [of rejecting_toolkit fresh_model point_without_volume, THEN conjunct2, THEN conjunct1] v
    by blast
  have 3: "train rejecting_toolkit fresh_model one_point = (fresh_model\<lparr>scaler := 1, model := 0\<rparr>, False)"
    using c7 [of rejecting_toolkit fresh_model one_point "[[1000, 100, 0, 0, 0, 0, 0]]" 1
        "[[1000, 100, 0, 0, 0, 0, 0]]" 0
        "ValueError ''contamination''", THEN conjunct2, THEN conjunct2, THEN conjunct1] p
    by blast
  have 4: "load_model unreadable_toolkit fresh_model ''model.pkl'' = (fresh_model, False)"
    using c7 [of unreadable_toolkit fresh_model _ _ _ _ _ _ "''model.pkl''",
        THEN conjunct2, THEN conjunct2, THEN conjunct2, THEN conjunct2, THEN conjunct1] l
    by blast
  have 5: "load_model rejecting_toolkit fresh_model ''model.pkl'' = (fresh_model\<lparr>model := 7\<rparr>, False)"
    using c7 [of rejecting_toolkit fresh_model _ _ _ _ _ _ "''model.pkl''" _,
        THEN conjunct2, THEN conjunct2, THEN conjunct2, THEN conjunct2, THEN conjunct2,
        THEN conjunct1, THEN mp, OF j]
    by simp
  have 6: "contamination (fst (load_model rejecting_toolkit fresh_model ''model.pkl'')) = 6 / 10"
    using 5 by (simp add: fresh_model_def AnomalyMLModel_init_def)
  have 7: "is_trained (fst (train working_toolkit default_model one_point))"
    using c7 [of working_toolkit default_model one_point, THEN conjunct2, THEN conjunct2,
        THEN conjunct2, THEN conjunct1] t by blast
  have 8: "contamination (fst (load_model working_toolkit fresh_model ''model.pkl'')) = 1 / 10"
    using c7 [of working_toolkit fresh_model _ _ _ _ _ _ "''model.pkl''",
        THEN conjunct2, THEN conjunct2, THEN conjunct2, THEN conjunct2, THEN conjunct2,
        THEN conjunct2, THEN conjunct2] s
    by (auto simp: working_toolkit_def)
  show ?thesis
    using f 1 2 3 4 5 6 7 8 9 by (intro conjI)
qed

section \<open>Rate limit and cooldown of an alert rule\<close>




section \<open>Gaps found by the missing-data detector\<close>

lemma set_unique [simp]: "set (unique xs) = set xs"
  by (induction xs) auto

lemma distinct_unique [simp]: "distinct (unique xs)"
  by (induction xs) auto

lemma foldl_append_concat:
  "foldl (\<lambda>acc x. acc @ g x) acc xs = acc @ concat (map g xs)"
  by (induction xs arbitrary: acc) auto

lemma filter_concat_distinct:
  assumes "distinct ks" and "\<And>k a. k \<in> set ks \<Longrightarrow> a \<in> set (g k) \<Longrightarrow> key a = k"
  shows "filter (\<lambda>a. key a = s) (concat (map g ks)) = (if s \<in> set ks then g s else [])"
  using assms
proof (induction ks)
  case Nil
  then show ?case by simp
next
  case (Cons k ks)
  have own: "filter (\<lambda>a. key a = s) (g k) = (if s = k then g k else [])"
    using Cons.prems(2) [of k] by (auto simp: filter_id_conv filter_empty_conv)
  have rest: "filter (\<lambda>a. key a = s) (concat (map g ks)) = (if s \<in> set ks then g s else [])"
    using Cons by auto
  show ?case
    using Cons.prems(1) own rest by auto
qed

lemma neighbours_by_index:
  "map (\<lambda>i. (xs ! (i - 1), xs ! i)) [1..<length xs] = consecutive xs"
  unfolding consecutive_def
  by (rule nth_equalityI) (auto simp: nth_tl)

lemma sorted_rows_times:
  assumes "sorts_by_timestamp sort_values"
  shows "map dp_timestamp (symbol_rows sort_values dps s) = times_of dps s"
proof -
  let ?pts = "filter (\<lambda>p. dp_symbol p = s) dps"
  have "mset (map dp_timestamp (sort_values ?pts)) = mset (map dp_timestamp ?pts)"
    using assms by (simp add: sorts_by_timestamp_def)
  moreover have "sorted (map dp_timestamp (sort_values ?pts))"
    using assms by (simp add: sorts_by_timestamp_def)
  ultimately have "sort (map dp_timestamp ?pts) = map dp_timestamp (sort_values ?pts)"
    by (rule properties_for_sort)
  then show ?thesis
    by (simp add: symbol_rows_def times_of_def)
qed

lemma consecutive_map:
  "consecutive (map h xs) = map (\<lambda>(a, b). (h a, h b)) (consecutive xs)"
proof -
  have "zip (map h xs) (map h (tl xs)) = map (\<lambda>(a, b). (h a, h b)) (zip xs (tl xs))"
    by (rule zip_map_map)
  then show ?thesis
    by (simp only: consecutive_def map_tl)
qed

lemma by_index_neighbours:
  "map (\<lambda>i. F (xs ! (i - 1)) (xs ! i)) (filter (\<lambda>i. Q (xs ! (i - 1)) (xs ! i)) [1..<length xs]) =
     map (\<lambda>(a, b). F a b) (filter (\<lambda>(a, b). Q a b) (consecutive xs))"
proof -
  have "map (\<lambda>(a, b). F a b) (filter (\<lambda>(a, b). Q a b)
          (map (\<lambda>i. (xs ! (i - 1), xs ! i)) [1..<length xs])) =
        map (\<lambda>i. F (xs ! (i - 1)) (xs ! i)) (filter (\<lambda>i. Q (xs ! (i - 1)) (xs ! i)) [1..<length xs])"
    by (simp only: filter_map map_map comp_def prod.case)
  then show ?thesis
    by (simp only: neighbours_by_index)
qed

text \<open>The inner loop appends one anomaly for each too-wide pair of neighbouring rows.\<close>

lemma gap_fold_index:
  "foldl (gap_step thr s rows) acc js =
     acc @ map (\<lambda>i. gap_anomaly thr s (dp_timestamp (rows ! (i - 1))) (dp_timestamp (rows ! i)))
             (filter (\<lambda>i. (dp_timestamp (rows ! i) - dp_timestamp (rows ! (i - 1))) / 60 > thr) js)"
  by (induction js arbitrary: acc) (simp_all add: gap_step_def Let_def)

lemma gap_fold:
  "foldl (gap_step thr s rows) acc [1..<length rows] =
     acc @ expected_gaps thr s (map dp_timestamp rows)"
proof -
  have "expected_gaps thr s (map dp_timestamp rows) =
        map (\<lambda>(a, b). gap_anomaly thr s (dp_timestamp a) (dp_timestamp b))
          (filter (\<lambda>(a, b). (dp_timestamp b - dp_timestamp a) / 60 > thr) (consecutive rows))"
    by (simp only: expected_gaps_def consecutive_map filter_map map_map comp_def prod.case
          case_prod_unfold fst_conv snd_conv)
  also have "\<dots> =
        map (\<lambda>i. gap_anomaly thr s (dp_timestamp (rows ! (i - 1))) (dp_timestamp (rows ! i)))
          (filter (\<lambda>i. (dp_timestamp (rows ! i) - dp_timestamp (rows ! (i - 1))) / 60 > thr)
             [1..<length rows])"
    by (rule by_index_neighbours [symmetric])
  finally show ?thesis
    by (simp only: gap_fold_index)
qed

lemma missing_data_detect_concat:
  "MissingDataDetector_detect sort_values thr dps =
     concat (map (\<lambda>smb. expected_gaps thr smb (map dp_timestamp (symbol_rows sort_values dps smb)))
               (unique (map dp_symbol dps)))"
proof (cases "dps = []")
  case True
  then show ?thesis
    by (simp add: MissingDataDetector_detect_def)
next
  case False
  then have "MissingDataDetector_detect sort_values thr dps =
      foldl (\<lambda>anomalies smb. anomalies @
                expected_gaps thr smb (map dp_timestamp (symbol_rows sort_values dps smb)))
        [] (unique (map dp_symbol dps))"
    by (simp only: MissingDataDetector_detect_def Let_def gap_fold if_False)
  then show ?thesis
    by (simp only: foldl_append_concat append_Nil)
qed

lemma gap_anomaly_fields:
  "a_symbol (gap_anomaly thr s t0 t1) = s"
  "anomaly_type (gap_anomaly thr s t0 t1) = ''missing_data''"
  "gap_minutes (gap_anomaly thr s t0 t1) = (t1 - t0) / 60"
  "severity (gap_anomaly thr s t0 t1) = (if (t1 - t0) / 60 > thr * 2 then ''high'' else ''medium'')"
  by (simp_all add: gap_anomaly_def Let_def)

text \<open>
  C1. For every input list and every symbol \<open>s\<close>, the anomalies that
  \<open>MissingDataDetector.detect\<close> emits for \<open>s\<close> are, in order, one for each pair of
  neighbours in the ascending list of the times of the points of \<open>s\<close> whose gap in minutes
  is strictly above the threshold, and nothing else. Every emitted anomaly is of type
  \<open>missing_data\<close>, and its severity is \<open>high\<close> iff the gap is above twice the threshold and
  \<open>medium\<close> otherwise. A symbol with no point or one point contributes no anomaly.
\<close>

theorem C1_missing_data_gaps:
  assumes "sorts_by_timestamp sort_values"
  shows "filter (\<lambda>a. a_symbol a = s) (MissingDataDetector_detect sort_values thr dps) =
           map (\<lambda>(t0, t1). gap_anomaly thr s t0 t1)
             (filter (\<lambda>(t0, t1). (t1 - t0) / 60 > thr) (consecutive (times_of dps s)))
       \<and> (\<forall>a \<in> set (MissingDataDetector_detect sort_values thr dps).
             anomaly_type a = ''missing_data'' \<and> gap_minutes a > thr
           \<and> (severity a = ''high'' \<longleftrightarrow> gap_minutes a > 2 * thr)
           \<and> (severity a = ''medium'' \<longleftrightarrow> \<not> gap_minutes a > 2 * thr))
       \<and> (length (filter (\<lambda>p. dp_symbol p = s) dps) \<le> 1 \<longrightarrow>
             filter (\<lambda>a. a_symbol a = s) (MissingDataDetector_detect sort_values thr dps) = [])"
proof -
  let ?G = "\<lambda>smb. expected_gaps thr smb (times_of dps smb)"
  let ?ks = "unique (map dp_symbol dps)"
  have det: "MissingDataDetector_detect sort_values thr dps = concat (map ?G ?ks)"
    by (simp only: missing_data_detect_concat sorted_rows_times [OF assms])
  have mem: "\<exists>t0 t1. a = gap_anomaly thr k t0 t1 \<and> (t1 - t0) / 60 > thr"
    if "a \<in> set (?G k)" for a k
    using that unfolding expected_gaps_def by fastforce
  have own: "a_symbol a = k" if "a \<in> set (?G k)" for a k
    using mem [OF that] by (auto simp: gap_anomaly_fields)
  have sel: "filter (\<lambda>a. a_symbol a = s) (concat (map ?G ?ks)) = (if s \<in> set ?ks then ?G s else [])"
    by (rule filter_concat_distinct) (use own in simp_all)
  have none: "?G s = []" if "s \<notin> set ?ks"
  proof -
    from that have "filter (\<lambda>p. dp_symbol p = s) dps = []"
      by (auto simp: filter_empty_conv)
    then show ?thesis
      by (simp add: times_of_def expected_gaps_def consecutive_def)
  qed
  have 1: "filter (\<lambda>a. a_symbol a = s) (MissingDataDetector_detect sort_values thr dps) = ?G s"
  proof (cases "s \<in> set ?ks")
    case True
    with sel show ?thesis by (simp only: det if_True)
  next
    case False
    with sel none [OF False] show ?thesis by (simp only: det if_False)
  qed
  have 2: "anomaly_type a = ''missing_data'' \<and> gap_minutes a > thr
           \<and> (severity a = ''high'' \<longleftrightarrow> gap_minutes a > 2 * thr)
           \<and> (severity a = ''medium'' \<longleftrightarrow> \<not> gap_minutes a > 2 * thr)"
    if "a \<in> set (MissingDataDetector_detect sort_values thr dps)" for a
  proof -
    from that obtain k where "a \<in> set (?G k)"
      unfolding det set_concat by auto
    from mem [OF this] obtain t0 t1 where "a = gap_anomaly thr k t0 t1" "(t1 - t0) / 60 > thr"
      by blast
    then show ?thesis
      by (simp add: gap_anomaly_fields mult.commute)
  qed
  have 3: "?G s = []" if "length (filter (\<lambda>p. dp_symbol p = s) dps) \<le> 1"
  proof -
    have "length (times_of dps s) \<le> 1"
      using that by (simp add: times_of_def)
    then have "consecutive (times_of dps s) = []"
      by (cases "times_of dps s") (simp_all add: consecutive_def)
    then show ?thesis
      by (simp add: expected_gaps_def)
  qed
  show ?thesis
    using 1 2 3 unfolding expected_gaps_def by (intro conjI ballI impI) simp_all
qed

lemma sort_key_sorts_by_timestamp: "sorts_by_timestamp (sort_key dp_timestamp)"
  by (simp add: sorts_by_timestamp_def)

text \<open>
  With a threshold of 30 minutes the two-hour gap of AAPL gives one anomaly of severity
  \<open>high\<close>, and the single MSFT point gives none.
\<close>

theorem C1_missing_data_gaps_witness:
  "filter (\<lambda>a. a_symbol a = ''AAPL'')
     (MissingDataDetector_detect (sort_key dp_timestamp) 30 two_hour_gap) =
     [\<lparr>a_symbol = ''AAPL'', anomaly_type = ''missing_data'', severity = ''high'',
       gap_minutes = 120, threshold_minutes = 30, last_data_time = 0, next_data_time = 7200\<rparr>]
   \<and> filter (\<lambda>a. a_symbol a = ''MSFT'')
     (MissingDataDetector_detect (sort_key dp_timestamp) 30 two_hour_gap) = []"
proof -
  note c1 = C1_missing_data_gaps [OF sort_key_sorts_by_timestamp, of _ 30 two_hour_gap]
  have "consecutive (times_of two_hour_gap ''AAPL'') = [(0, 7200)]"
    by (simp add: times_of_def two_hour_gap_def consecutive_def)
  then have a: "filter (\<lambda>a. a_symbol a = ''AAPL'')
     (MissingDataDetector_detect (sort_key dp_timestamp) 30 two_hour_gap) =
     [gap_anomaly 30 ''AAPL'' 0 7200]"
    using c1 [of "''AAPL''"] by simp
  have "length (filter (\<lambda>p. dp_symbol p = ''MSFT'') two_hour_gap) \<le> 1"
    by (simp add: two_hour_gap_def)
  then have b: "filter (\<lambda>a. a_symbol a = ''MSFT'')
     (MissingDataDetector_detect (sort_key dp_timestamp) 30 two_hour_gap) = []"
    using c1 [of "''MSFT''"] by blast
  show ?thesis
    using a b by (simp add: gap_anomaly_def)
qed

text \<open>The same result by running the detector's loops on the example.\<close>

lemma missing_data_detect_example:
  "MissingDataDetector_detect (sort_key dp_timestamp) 30 two_hour_gap =
     [\<lparr>a_symbol = ''AAPL'', anomaly_type = ''missing_data'', severity = ''high'',
       gap_minutes = 120, threshold_minutes = 30, last_data_time = 0, next_data_time = 7200\<rparr>]"
  by (simp add: MissingDataDetector_detect_def two_hour_gap_def symbol_rows_def gap_step_def
        gap_anomaly_def Let_def upt_rec)

section \<open>Movements found by the price-movement detector\<close>

lemma movement_fold:
  "foldl (movement_step thr s) acc zs =
     acc @ map (\<lambda>(row, c). movement_anomaly thr s row c)
             (filter (\<lambda>(row, c). exceeds c thr) zs)"
proof (induction zs arbitrary: acc)
  case Nil
  then show ?case by simp
next
  case (Cons z zs)
  obtain row c where z: "z = (row, c)" by (cases z)
  have "movement_step thr s acc (row, c) =
          acc @ (if exceeds c thr then [movement_anomaly thr s row c] else [])"
    by (cases c) (simp_all add: movement_step_def Let_def)
  then show ?case
    by (simp add: Cons z)
qed

lemma zip_with_neighbour:
  "length ys \<le> length xs \<Longrightarrow> zip ys (map2 h xs ys) = map (\<lambda>(a, b). (b, h a b)) (zip xs ys)"
  by (induction xs ys rule: list_induct2') auto

lemma price_change_column:
  "map (\<lambda>c. dtimes c 100) (map2 (\<lambda>prev cur. dminus (ddiv cur prev) 1) (map dp_price xs) (map dp_price ys)) =
     map2 (\<lambda>a b. double_change (dp_price a) (dp_price b)) xs ys"
  by (simp add: zip_map_map double_change_def case_prod_unfold)

lemma changes_by_index:
  "map (\<lambda>i. (rows ! i, change_at rows i)) [1..<length rows] =
     map (\<lambda>(a, b). (b, double_change (dp_price a) (dp_price b))) (consecutive rows)"
proof -
  have "map (\<lambda>(a, b). (b, double_change (dp_price a) (dp_price b)))
          (map (\<lambda>i. (rows ! (i - 1), rows ! i)) [1..<length rows]) =
        map (\<lambda>i. (rows ! i, change_at rows i)) [1..<length rows]"
    by (simp only: map_map comp_def prod.case change_at_def)
  then show ?thesis
    by (simp only: neighbours_by_index)
qed

lemma zip_price_change:
  assumes "rows \<noteq> []"
  shows "zip rows (map (\<lambda>c. dtimes c 100) (pct_change (map dp_price rows))) =
           (hd rows, NaN) # map (\<lambda>i. (rows ! i, change_at rows i)) [1..<length rows]"
proof -
  from assms obtain r rest where rows: "rows = r # rest"
    by (cases rows) auto
  have "zip rest (map (\<lambda>c. dtimes c 100)
            (map2 (\<lambda>prev cur. dminus (ddiv cur prev) 1) (map dp_price (r # rest)) (map dp_price rest))) =
        zip rest (map2 (\<lambda>a b. double_change (dp_price a) (dp_price b)) (r # rest) rest)"
    by (simp only: price_change_column)
  also have "\<dots> = map (\<lambda>(a, b). (b, double_change (dp_price a) (dp_price b))) (zip (r # rest) rest)"
    by (rule zip_with_neighbour) simp
  also have "\<dots> = map (\<lambda>i. ((r # rest) ! i, change_at (r # rest) i)) [1..<length (r # rest)]"
    by (simp only: changes_by_index consecutive_def list.sel)
  finally show ?thesis
    by (simp only: rows list.map pct_change.simps zip_Cons_Cons dtimes.simps list.sel)
qed

lemma movements_of_rows:
  "(if length rows < 2 then acc
    else foldl (movement_step thr s) acc
           (zip rows (map (\<lambda>c. dtimes c 100) (pct_change (map dp_price rows))))) =
   acc @ map (\<lambda>i. movement_anomaly thr s (rows ! i) (change_at rows i))
           (filter (\<lambda>i. exceeds (change_at rows i) thr) [1..<length rows])"
proof (cases "length rows < 2")
  case True
  then have "[1..<length rows] = []"
    by (cases rows) auto
  with True show ?thesis by simp
next
  case False
  then have "rows \<noteq> []" by auto
  have "map (\<lambda>(row, c). movement_anomaly thr s row c)
          (filter (\<lambda>(row, c). exceeds c thr)
             (map (\<lambda>i. (rows ! i, change_at rows i)) [1..<length rows])) =
        map (\<lambda>i. movement_anomaly thr s (rows ! i) (change_at rows i))
          (filter (\<lambda>i. exceeds (change_at rows i) thr) [1..<length rows])"
    by (simp only: filter_map map_map comp_def prod.case)
  moreover have "foldl (movement_step thr s) acc
           (zip rows (map (\<lambda>c. dtimes c 100) (pct_change (map dp_price rows)))) =
        acc @ map (\<lambda>(row, c). movement_anomaly thr s row c)
          (filter (\<lambda>(row, c). exceeds c thr)
             ((hd rows, NaN) # map (\<lambda>i. (rows ! i, change_at rows i)) [1..<length rows]))"
    by (simp only: movement_fold zip_price_change [OF \<open>rows \<noteq> []\<close>])
  ultimately show ?thesis
    using False by (simp only: filter.simps prod.case exceeds.simps if_False)
qed

lemma price_movement_detect_concat:
  "PriceMovementDetector_detect sort_values thr dps =
     concat (map (\<lambda>smb. expected_movements thr smb (symbol_rows sort_values dps smb))
               (unique (map dp_symbol dps)))"
proof (cases "dps = []")
  case True
  then show ?thesis
    by (simp add: PriceMovementDetector_detect_def)
next
  case False
  then have "PriceMovementDetector_detect sort_values thr dps =
      foldl (\<lambda>anomalies smb. anomalies @
                expected_movements thr smb (symbol_rows sort_values dps smb))
        [] (unique (map dp_symbol dps))"
    by (simp only: PriceMovementDetector_detect_def Let_def movements_of_rows if_False
          expected_movements_def)
  then show ?thesis
    by (simp only: foldl_append_concat append_Nil)
qed


lemma movement_anomaly_fields:
  "a_symbol (movement_anomaly thr s row c) = s"
  "anomaly_type (movement_anomaly thr s row c) = ''price_movement''"
  "price_change_percent (movement_anomaly thr s row c) = c"
  "current_price (movement_anomaly thr s row c) = dp_price row"
  "severity (movement_anomaly thr s row c) = (if exceeds_twice c thr then ''critical'' else ''high'')"
  by (simp_all add: movement_anomaly_def Let_def exceeds_twice_def)


text \<open>Evaluating the rounding: a real in the binade of exponent \<open>e\<close> is rounded to 53 bits there.\<close>

lemma binary64_in_binade:
  assumes "2 powi e \<le> \<bar>x\<bar>" and "\<bar>x\<bar> < 2 powi (e + 1)" and "- 1022 \<le> e"
  shows "binary64 x =
           (let ulp = 2 powi (e - 52); r = of_int (round_half_even (x / ulp)) * ulp
            in if \<bar>r\<bar> \<ge> 2 ^ 1024 then (if x > 0 then PosInf else NegInf) else Num r)"
proof -
  have "(0::real) < 2 powi e" by simp
  with assms(1) have pos: "0 < \<bar>x\<bar>" by linarith
  have p: "(2::real) powr of_int k = 2 powi k" for k
    by (simp add: powr_real_of_int')
  have "(2::real) powr (of_int e + 1) = 2 powr of_int (e + 1)" by simp
  then have "2 powr of_int e \<le> \<bar>x\<bar>" "\<bar>x\<bar> < 2 powr (of_int e + 1)"
    using assms(1,2) by (simp_all only: p)
  then have "\<lfloor>log 2 \<bar>x\<bar>\<rfloor> = e"
    using pos by (simp add: floor_log_eq_powr_iff)
  then show ?thesis
    using pos assms(3) by (simp add: binary64_def Let_def)
qed

lemma double_change_finite:
  assumes "prev \<noteq> 0" and "binary64 (cur / prev) = Num q" and "binary64 (q - 1) = Num d"
    and "binary64 (d * 100) = Num c"
  shows "double_change prev cur = Num c"
  using assms by (simp add: double_change_def ddiv_def)

lemma double_change_zero_divisor: "double_change 0 cur = percent_change 0 cur"
  by (simp add: double_change_def ddiv_def percent_change_def)

lemma binary64_10: "binary64 10 = Num 10"
  by (subst binary64_in_binade [of 3]) (simp_all add: round_half_even_def Let_def power_int_minus)

lemma double_change_100_105: "double_change 100 105 = Num (5 + 5 / 2 ^ 50)"
proof -
  have q: "binary64 (105 / 100) = Num (4728779608739021 / 2 ^ 52)"
    by (subst binary64_in_binade [of 0]) (simp_all add: round_half_even_def Let_def power_int_minus)
  have d: "binary64 (4728779608739021 / 2 ^ 52 - 1) = Num (225179981368525 / 2 ^ 52)"
    by (subst binary64_in_binade [of "- 5"]) (simp_all add: round_half_even_def Let_def power_int_minus)
  have c: "binary64 (225179981368525 / 2 ^ 52 * 100) = Num (5 + 5 / 2 ^ 50)"
    by (subst binary64_in_binade [of 2]) (simp_all add: round_half_even_def Let_def power_int_minus)
  show ?thesis
    by (rule double_change_finite [OF _ q d c]) simp
qed

lemma double_change_100_110: "double_change 100 110 = Num (10 + 5 / 2 ^ 49)"
proof -
  have q: "binary64 (110 / 100) = Num (4953959590107546 / 2 ^ 52)"
    by (subst binary64_in_binade [of 0]) (simp_all add: round_half_even_def Let_def power_int_minus)
  have d: "binary64 (4953959590107546 / 2 ^ 52 - 1) = Num (450359962737050 / 2 ^ 52)"
    by (subst binary64_in_binade [of "- 4"]) (simp_all add: round_half_even_def Let_def power_int_minus)
  have c: "binary64 (450359962737050 / 2 ^ 52 * 100) = Num (10 + 5 / 2 ^ 49)"
    by (subst binary64_in_binade [of 3]) (simp_all add: round_half_even_def Let_def power_int_minus)
  show ?thesis
    by (rule double_change_finite [OF _ q d c]) simp
qed

lemma double_change_150_160: "double_change 150 160 = Num (7505999378950825 / 2 ^ 50)"
proof -
  have q: "binary64 (160 / 150) = Num (4803839602528529 / 2 ^ 52)"
    by (subst binary64_in_binade [of 0]) (simp_all add: round_half_even_def Let_def power_int_minus)
  have d: "binary64 (4803839602528529 / 2 ^ 52 - 1) = Num (300239975158033 / 2 ^ 52)"
    by (subst binary64_in_binade [of "- 4"]) (simp_all add: round_half_even_def Let_def power_int_minus)
  have c: "binary64 (300239975158033 / 2 ^ 52 * 100) = Num (7505999378950825 / 2 ^ 50)"
    by (subst binary64_in_binade [of 2]) (simp_all add: round_half_even_def Let_def power_int_minus)
  show ?thesis
    by (rule double_change_finite [OF _ q d c]) simp
qed

lemma double_change_160_161: "double_change 160 161 = Num (351843720888325 / 2 ^ 49)"
proof -
  have q: "binary64 (161 / 160) = Num (4531747125041562 / 2 ^ 52)"
    by (subst binary64_in_binade [of 0]) (simp_all add: round_half_even_def Let_def power_int_minus)
  have d: "binary64 (4531747125041562 / 2 ^ 52 - 1) = Num (28147497671066 / 2 ^ 52)"
    by (subst binary64_in_binade [of "- 8"]) (simp_all add: round_half_even_def Let_def power_int_minus)
  have c: "binary64 (28147497671066 / 2 ^ 52 * 100) = Num (351843720888325 / 2 ^ 49)"
    by (subst binary64_in_binade [of "- 1"]) (simp_all add: round_half_even_def Let_def power_int_minus)
  show ?thesis
    by (rule double_change_finite [OF _ q d c]) simp
qed

text \<open>The claim's formula with each operation rounded: \<open>(105 - 100) / 100 * 100\<close> is 5.\<close>

lemma claimed_formula_100_105: "dtimes (ddiv (105 - 100) 100) 100 = Num 5"
proof -
  have q: "binary64 (5 / 100) = Num (3602879701896397 / 2 ^ 56)"
    by (subst binary64_in_binade [of "- 5"]) (simp_all add: round_half_even_def Let_def power_int_minus)
  have c: "binary64 (3602879701896397 / 2 ^ 56 * 100) = Num 5"
    by (subst binary64_in_binade [of 2]) (simp_all add: round_half_even_def Let_def power_int_minus)
  have "ddiv (105 - 100) 100 = Num (3602879701896397 / 2 ^ 56)"
    using q by (simp add: ddiv_def)
  then show ?thesis
    using c by simp
qed

text \<open>
  C2, as claimed: an anomaly is emitted iff the absolute percent change
  \<open>(p[i] - p[i-1]) / p[i-1] * 100\<close> strictly exceeds the threshold, and it is \<open>critical\<close>
  iff the change exceeds twice the threshold. The detector computes the change as
  \<open>(p[i] / p[i-1] - 1) * 100\<close> in doubles. For a price that moves from 100 to 105 the
  claimed change is 5, as a real number and with each operation of the claim's formula
  rounded, which does not exceed a threshold of 5; the detector computes
  5.000000000000004 and emits an anomaly. For a price that moves from 100 to 110 the
  claimed change is 10, not above twice the threshold, and the detector reports
  \<open>critical\<close>.
\<close>

theorem C2_rounding_counterexample:
  "PriceMovementDetector_detect (sort_key dp_timestamp) 5 five_percent_rise =
     [\<lparr>a_symbol = ''AAPL'', anomaly_type = ''price_movement'', severity = ''high'',
       price_change_percent = Num (5 + 5 / 2 ^ 50), threshold_percent = 5, current_price = 105,
       pm_timestamp = 60\<rparr>]
   \<and> percent_change 100 105 = Num 5
   \<and> \<not> exceeds (percent_change 100 105) 5
   \<and> dtimes (ddiv (105 - 100) 100) 100 = Num 5
   \<and> PriceMovementDetector_detect (sort_key dp_timestamp) 5 ten_percent_rise =
     [\<lparr>a_symbol = ''AAPL'', anomaly_type = ''price_movement'', severity = ''critical'',
       price_change_percent = Num (10 + 5 / 2 ^ 49), threshold_percent = 5, current_price = 110,
       pm_timestamp = 60\<rparr>]
   \<and> percent_change 100 110 = Num 10
   \<and> \<not> exceeds (percent_change 100 110) (2 * 5)"
proof -
  have 1: "PriceMovementDetector_detect (sort_key dp_timestamp) 5 five_percent_rise =
     [\<lparr>a_symbol = ''AAPL'', anomaly_type = ''price_movement'', severity = ''high'',
       price_change_percent = Num (5 + 5 / 2 ^ 50), threshold_percent = 5, current_price = 105,
       pm_timestamp = 60\<rparr>]"
    by (simp add: price_movement_detect_concat five_percent_rise_def symbol_rows_def
          expected_movements_def change_at_def double_change_100_105 movement_anomaly_def
          binary64_10)
  have 2: "PriceMovementDetector_detect (sort_key dp_timestamp) 5 ten_percent_rise =
     [\<lparr>a_symbol = ''AAPL'', anomaly_type = ''price_movement'', severity = ''critical'',
       price_change_percent = Num (10 + 5 / 2 ^ 49), threshold_percent = 5, current_price = 110,
       pm_timestamp = 60\<rparr>]"
    by (simp add: price_movement_detect_concat ten_percent_rise_def symbol_rows_def
          expected_movements_def change_at_def double_change_100_110 movement_anomaly_def
          binary64_10)
  have 3: "percent_change 100 105 = Num 5" "percent_change 100 110 = Num 10"
    by (simp_all add: percent_change_def)
  have 4: "\<not> exceeds (percent_change 100 105) 5" "\<not> exceeds (percent_change 100 110) (2 * 5)"
    by (simp_all add: percent_change_def)
  show ?thesis
    using 1 2 3 4 claimed_formula_100_105 by (intro conjI)
qed

text \<open>
  C2, amended. For every input list and every symbol \<open>s\<close>, with \<open>rows\<close> the points of \<open>s\<close>
  ordered by time, the anomalies that \<open>PriceMovementDetector.detect\<close> emits for \<open>s\<close> are,
  in order, one for each row \<open>i \<ge> 1\<close> whose change against row \<open>i - 1\<close>, computed in
  doubles as \<open>(p[i] / p[i-1] - 1) * 100\<close> with each operation rounded, is in absolute
  value strictly above the threshold, and nothing else; row 0 is never among them. Every
  emitted anomaly is of type \<open>price_movement\<close>, and its severity is \<open>critical\<close> iff the
  absolute value of that change is above the double \<open>threshold * 2\<close> and \<open>high\<close>
  otherwise. A previous price of zero makes the change infinite (or NaN when the price
  stays zero), as in the claim's formula: the infinite change is reported, NaN is not.
\<close>

theorem C2_price_movements_amended:
  assumes "sorts_by_timestamp sort_values"
  shows "filter (\<lambda>a. a_symbol a = s) (PriceMovementDetector_detect sort_values thr dps) =
           map (\<lambda>i. movement_anomaly thr s (symbol_rows sort_values dps s ! i)
                       (change_at (symbol_rows sort_values dps s) i))
             (filter (\<lambda>i. exceeds (change_at (symbol_rows sort_values dps s) i) thr)
                [1..<length (symbol_rows sort_values dps s)])
       \<and> mset (symbol_rows sort_values dps s) = mset (filter (\<lambda>p. dp_symbol p = s) dps)
       \<and> sorted (map dp_timestamp (symbol_rows sort_values dps s))
       \<and> (\<forall>a \<in> set (PriceMovementDetector_detect sort_values thr dps).
             anomaly_type a = ''price_movement'' \<and> exceeds (price_change_percent a) thr
           \<and> (severity a = ''critical'' \<longleftrightarrow> exceeds_twice (price_change_percent a) thr)
           \<and> (severity a = ''high'' \<longleftrightarrow> \<not> exceeds_twice (price_change_percent a) thr))
       \<and> (length (filter (\<lambda>p. dp_symbol p = s) dps) \<le> 1 \<longrightarrow>
             filter (\<lambda>a. a_symbol a = s) (PriceMovementDetector_detect sort_values thr dps) = [])
       \<and> change_at rows i =
           dtimes (dminus (ddiv (dp_price (rows ! i)) (dp_price (rows ! (i - 1)))) 1) 100
       \<and> (dp_price (rows ! (i - 1)) = 0 \<longrightarrow>
             change_at rows i = percent_change 0 (dp_price (rows ! i)))"
proof -
  let ?G = "\<lambda>smb. expected_movements thr smb (symbol_rows sort_values dps smb)"
  let ?ks = "unique (map dp_symbol dps)"
  have det: "PriceMovementDetector_detect sort_values thr dps = concat (map ?G ?ks)"
    by (rule price_movement_detect_concat)
  have mem: "\<exists>row c. a = movement_anomaly thr k row c \<and> exceeds c thr"
    if "a \<in> set (?G k)" for a k
    using that unfolding expected_movements_def by auto
  have own: "a_symbol a = k" if "a \<in> set (?G k)" for a k
    using mem [OF that] by (auto simp: movement_anomaly_fields)
  have sel: "filter (\<lambda>a. a_symbol a = s) (concat (map ?G ?ks)) = (if s \<in> set ?ks then ?G s else [])"
    by (rule filter_concat_distinct) (use own in simp_all)
  have perm: "mset (symbol_rows sort_values dps s) = mset (filter (\<lambda>p. dp_symbol p = s) dps)"
    and srt: "sorted (map dp_timestamp (symbol_rows sort_values dps s))"
    using assms by (simp_all add: sorts_by_timestamp_def symbol_rows_def)
  have len: "length (symbol_rows sort_values dps s) = length (filter (\<lambda>p. dp_symbol p = s) dps)"
    using perm by (rule mset_eq_length)
  have short: "?G s = []" if "length (filter (\<lambda>p. dp_symbol p = s) dps) \<le> 1"
  proof -
    from that len have "[1..<length (symbol_rows sort_values dps s)] = []"
      by simp
    then show ?thesis
      by (simp only: expected_movements_def filter.simps list.map)
  qed
  have none: "?G s = []" if "s \<notin> set ?ks"
  proof -
    from that have "filter (\<lambda>p. dp_symbol p = s) dps = []"
      by (auto simp: filter_empty_conv)
    then show ?thesis
      using short by simp
  qed
  have 1: "filter (\<lambda>a. a_symbol a = s) (PriceMovementDetector_detect sort_values thr dps) = ?G s"
  proof (cases "s \<in> set ?ks")
    case True
    with sel show ?thesis by (simp only: det if_True)
  next
    case False
    with sel none [OF False] show ?thesis by (simp only: det if_False)
  qed
  have 2: "anomaly_type a = ''price_movement'' \<and> exceeds (price_change_percent a) thr
           \<and> (severity a = ''critical'' \<longleftrightarrow> exceeds_twice (price_change_percent a) thr)
           \<and> (severity a = ''high'' \<longleftrightarrow> \<not> exceeds_twice (price_change_percent a) thr)"
    if "a \<in> set (PriceMovementDetector_detect sort_values thr dps)" for a
  proof -
    from that obtain k where "a \<in> set (?G k)"
      unfolding det set_concat by auto
    from mem [OF this] obtain row c where "a = movement_anomaly thr k row c" "exceeds c thr"
      by blast
    then show ?thesis
      by (simp add: movement_anomaly_fields)
  qed
  have 3: "change_at rows i =
           dtimes (dminus (ddiv (dp_price (rows ! i)) (dp_price (rows ! (i - 1)))) 1) 100"
    by (simp only: change_at_def double_change_def)
  have 4: "change_at rows i = percent_change 0 (dp_price (rows ! i))"
    if "dp_price (rows ! (i - 1)) = 0"
    using that by (simp only: change_at_def double_change_zero_divisor)
  show ?thesis
    using 1 2 3 4 perm srt short unfolding expected_movements_def
    by (intro conjI ballI impI) simp_all
qed

text \<open>
  With a threshold of 5 percent: AAPL moves from 150 to 160 (6.666666666666665 percent in
  doubles, \<open>high\<close>) and on to 161 (0.6250000000000089 percent, no anomaly); MSFT moves
  from 0 to 5 (an infinite change, \<open>critical\<close>).
\<close>

theorem C2_price_movements_witness:
  "filter (\<lambda>a. a_symbol a = ''AAPL'')
     (PriceMovementDetector_detect (sort_key dp_timestamp) 5 ten_dollar_rise) =
     [\<lparr>a_symbol = ''AAPL'', anomaly_type = ''price_movement'', severity = ''high'',
       price_change_percent = Num (7505999378950825 / 2 ^ 50), threshold_percent = 5,
       current_price = 160, pm_timestamp = 60\<rparr>]
   \<and> filter (\<lambda>a. a_symbol a = ''MSFT'')
     (PriceMovementDetector_detect (sort_key dp_timestamp) 5 ten_dollar_rise) =
     [\<lparr>a_symbol = ''MSFT'', anomaly_type = ''price_movement'', severity = ''critical'',
       price_change_percent = PosInf, threshold_percent = 5, current_price = 5,
       pm_timestamp = 60\<rparr>]"
proof -
  note c2 = C2_price_movements_amended [OF sort_key_sorts_by_timestamp, of _ 5 ten_dollar_rise,
      THEN conjunct1]
  have a: "symbol_rows (sort_key dp_timestamp) ten_dollar_rise ''AAPL'' =
      [\<lparr>dp_symbol = ''AAPL'', dp_timestamp = 0, dp_price = 150, dp_volume = None\<rparr>,
       \<lparr>dp_symbol = ''AAPL'', dp_timestamp = 60, dp_price = 160, dp_volume = None\<rparr>,
       \<lparr>dp_symbol = ''AAPL'', dp_timestamp = 120, dp_price = 161, dp_volume = None\<rparr>]"
    by (simp add: symbol_rows_def ten_dollar_rise_def)
  have m: "symbol_rows (sort_key dp_timestamp) ten_dollar_rise ''MSFT'' =
      [\<lparr>dp_symbol = ''MSFT'', dp_timestamp = 0, dp_price = 0, dp_volume = None\<rparr>,
       \<lparr>dp_symbol = ''MSFT'', dp_timestamp = 60, dp_price = 5, dp_volume = None\<rparr>]"
    by (simp add: symbol_rows_def ten_dollar_rise_def)
  have z: "double_change 0 5 = PosInf"
    by (simp add: double_change_def ddiv_def)
  show ?thesis
    using c2 [of "''AAPL''"] c2 [of "''MSFT''"] unfolding a m
    by (simp add: upt_rec change_at_def double_change_150_160 double_change_160_161 z
          movement_anomaly_def binary64_10)
qed

text \<open>The whole output on the example.\<close>

lemma price_movement_detect_example:
  "PriceMovementDetector_detect (sort_key dp_timestamp) 5 ten_dollar_rise =
     [\<lparr>a_symbol = ''AAPL'', anomaly_type = ''price_movement'', severity = ''high'',
       price_change_percent = Num (7505999378950825 / 2 ^ 50), threshold_percent = 5,
       current_price = 160, pm_timestamp = 60\<rparr>,
      \<lparr>a_symbol = ''MSFT'', anomaly_type = ''price_movement'', severity = ''critical'',
       price_change_percent = PosInf, threshold_percent = 5, current_price = 5,
       pm_timestamp = 60\<rparr>]"
proof -
  have u: "unique (map dp_symbol ten_dollar_rise) = [''AAPL'', ''MSFT'']"
    by (simp add: ten_dollar_rise_def)
  have a: "symbol_rows (sort_key dp_timestamp) ten_dollar_rise ''AAPL'' =
      [\<lparr>dp_symbol = ''AAPL'', dp_timestamp = 0, dp_price = 150, dp_volume = None\<rparr>,
       \<lparr>dp_symbol = ''AAPL'', dp_timestamp = 60, dp_price = 160, dp_volume = None\<rparr>,
       \<lparr>dp_symbol = ''AAPL'', dp_timestamp = 120, dp_price = 161, dp_volume = None\<rparr>]"
    by (simp add: symbol_rows_def ten_dollar_rise_def)
  have m: "symbol_rows (sort_key dp_timestamp) ten_dollar_rise ''MSFT'' =
      [\<lparr>dp_symbol = ''MSFT'', dp_timestamp = 0, dp_price = 0, dp_volume = None\<rparr>,
       \<lparr>dp_symbol = ''MSFT'', dp_timestamp = 60, dp_price = 5, dp_volume = None\<rparr>]"
    by (simp add: symbol_rows_def ten_dollar_rise_def)
  have z: "double_change 0 5 = PosInf"
    by (simp add: double_change_def ddiv_def)
  have ea: "expected_movements 5 ''AAPL''
      [\<lparr>dp_symbol = ''AAPL'', dp_timestamp = 0, dp_price = 150, dp_volume = None\<rparr>,
       \<lparr>dp_symbol = ''AAPL'', dp_timestamp = 60, dp_price = 160, dp_volume = None\<rparr>,
       \<lparr>dp_symbol = ''AAPL'', dp_timestamp = 120, dp_price = 161, dp_volume = None\<rparr>] =
     [\<lparr>a_symbol = ''AAPL'', anomaly_type = ''price_movement'', severity = ''high'',
       price_change_percent = Num (7505999378950825 / 2 ^ 50), threshold_percent = 5,
       current_price = 160, pm_timestamp = 60\<rparr>]"
    by (simp add: expected_movements_def upt_rec change_at_def double_change_150_160
          double_change_160_161 movement_anomaly_def binary64_10)
  have em: "expected_movements 5 ''MSFT''
      [\<lparr>dp_symbol = ''MSFT'', dp_timestamp = 0, dp_price = 0, dp_volume = None\<rparr>,
       \<lparr>dp_symbol = ''MSFT'', dp_timestamp = 60, dp_price = 5, dp_volume = None\<rparr>] =
     [\<lparr>a_symbol = ''MSFT'', anomaly_type = ''price_movement'', severity = ''critical'',
       price_change_percent = PosInf, threshold_percent = 5, current_price = 5,
       pm_timestamp = 60\<rparr>]"
    by (simp add: expected_movements_def upt_rec change_at_def z movement_anomaly_def binary64_10)
  show ?thesis
    by (simp only: price_movement_detect_concat u list.map a m ea em concat.simps append.simps)
qed

section \<open>Rows flagged by the time-series model\<close>



lemma length_rolling [simp]: "length (rolling w stat needed col) = length col"
  by (simp add: rolling_def)

lemma length_z_scores [simp]: "length (z_scores w col) = length col"
  by (simp add: z_scores_def)




















end
